theory Spec2Isabelle
  imports Main "HOL-Library.Sublist"
begin

section \<open>NavidroFM: playlist reconciliation (src/app.py)\<close>

text \<open>
  The development embeds the parts of \<^verbatim>\<open>src/app.py\<close> that resolve recommended
  tracks against the external catalogue and the media library. Python values are
  modelled by typed views of the JSON documents the code reads: a key that may be
  absent is an \<open>option\<close>, and \<^verbatim>\<open>d.get(k, default)\<close> is \<open>dict_get\<close>. Log output is
  not modelled: \<^verbatim>\<open>log\<close> is \<^verbatim>\<open>print\<close> to the standard output and is taken to succeed.
\<close>

subsection \<open>Strings\<close>

text \<open>
  Strings are ASCII text. On ASCII, \<^verbatim>\<open>str.lower\<close> maps A-Z to a-z, the regular
  expression class \<^verbatim>\<open>\w\<close> is letters, digits and underscore, and \<^verbatim>\<open>\s\<close> (like
  \<^verbatim>\<open>str.strip\<close>) is the code points 9-13 and 28-32.
\<close>

definition py_isspace :: "char \<Rightarrow> bool" where
  "py_isspace c = (let n = (of_char c :: nat) in (9 \<le> n \<and> n \<le> 13) \<or> (28 \<le> n \<and> n \<le> 32))"

definition py_isword :: "char \<Rightarrow> bool" where
  "py_isword c = (let n = (of_char c :: nat) in
     (48 \<le> n \<and> n \<le> 57) \<or> (65 \<le> n \<and> n \<le> 90) \<or> n = 95 \<or> (97 \<le> n \<and> n \<le> 122))"

definition py_lower_char :: "char \<Rightarrow> char" where
  "py_lower_char c = (let n = (of_char c :: nat) in
     if 65 \<le> n \<and> n \<le> 90 then char_of (n + 32) else c)"

definition py_lower :: "string \<Rightarrow> string" where
  "py_lower s = map py_lower_char s"

text \<open>\<^verbatim>\<open>re.sub(r'\s+', ' ', text)\<close>: every maximal run of whitespace becomes one space.\<close>

function collapse_ws :: "string \<Rightarrow> string" where
  "collapse_ws [] = []"
| "collapse_ws (c # cs) =
     (if py_isspace c then CHR '' '' # collapse_ws (dropWhile py_isspace cs)
      else c # collapse_ws cs)"
  by pat_completeness auto
termination
  by (relation "measure length") (auto simp: less_Suc_eq_le length_dropWhile_le)

definition py_strip :: "string \<Rightarrow> string" where
  "py_strip s = rev (dropWhile py_isspace (rev (dropWhile py_isspace s)))"

text \<open>\<^verbatim>\<open>sep.join(xs)\<close>\<close>

fun py_join :: "string \<Rightarrow> string list \<Rightarrow> string" where
  "py_join sep [] = []"
| "py_join sep [x] = x"
| "py_join sep (x # y # ys) = x @ sep @ py_join sep (y # ys)"

text \<open>\<^verbatim>\<open>d.get(k, default)\<close> on a key that is present (\<open>Some\<close>) or absent (\<open>None\<close>).\<close>

definition dict_get :: "'a option \<Rightarrow> 'a \<Rightarrow> 'a" where
  "dict_get v dflt = (case v of None \<Rightarrow> dflt | Some x \<Rightarrow> x)"

text \<open>Truthiness of an optional string: \<^verbatim>\<open>None\<close> and \<^verbatim>\<open>''\<close> are false.\<close>

definition truthy :: "string option \<Rightarrow> bool" where
  "truthy v = (case v of None \<Rightarrow> False | Some s \<Rightarrow> s \<noteq> [])"

text \<open>\<^verbatim>\<open>NavidroFM.normalize_for_matching\<close> (lines 351-356).\<close>

definition normalize_for_matching :: "string \<Rightarrow> string" where
  "normalize_for_matching text =
     (let text1 = py_lower text;
          text2 = filter (\<lambda>c. py_isword c \<or> py_isspace c) text1;
          text3 = collapse_ws text2
      in py_strip text3)"

subsection \<open>Search results of the external catalogue\<close>

text \<open>
  A search result is a JSON object of the catalogue; the code reads its keys
  \<^verbatim>\<open>videoId\<close>, \<^verbatim>\<open>title\<close>, \<^verbatim>\<open>artists\<close>, \<^verbatim>\<open>album\<close> and \<^verbatim>\<open>thumbnails\<close>. The value of
  \<^verbatim>\<open>artists\<close> is a list of objects with an optional \<^verbatim>\<open>name\<close>, or some other value,
  of which the code takes \<^verbatim>\<open>str(v) if v else ''\<close> (\<open>ArtistOther\<close> holds that string).
  A result always carries further keys (its category and result type), so as a
  Python value it is never the empty dict and \<^verbatim>\<open>not best_match\<close> at line 404 is the
  test \<^verbatim>\<open>best_match is None\<close>.
\<close>

datatype artists_value = ArtistDicts "string option list" | ArtistOther string

record album_ref =
  alb_name :: "string option"
  alb_id :: "string option"

record yt_result =
  res_videoId :: "string option"
  res_title :: "string option"
  res_artists :: artists_value
  res_album :: "album_ref option"
  res_thumbnails :: "string option list"

text \<open>Lines 374-378: the artist string of a result.\<close>

definition result_artist_of :: "yt_result \<Rightarrow> string" where
  "result_artist_of result =
     (case res_artists result of
        ArtistDicts ds \<Rightarrow> py_join '', '' (map (\<lambda>a. dict_get a []) ds)
      | ArtistOther s \<Rightarrow> s)"

text \<open>Lines 385-386: both normalized fields contain, or are contained in, the target's.\<close>

definition eligible :: "string \<Rightarrow> string \<Rightarrow> yt_result \<Rightarrow> bool" where
  "eligible norm_artist norm_title result =
     (let norm_result_artist = normalize_for_matching (result_artist_of result);
          norm_result_title = normalize_for_matching (dict_get (res_title result) []);
          artist_match = (sublist norm_artist norm_result_artist \<or> sublist norm_result_artist norm_artist);
          title_match = (sublist norm_title norm_result_title \<or> sublist norm_result_title norm_title)
      in artist_match \<and> title_match)"

text \<open>Lines 389-398: the score of a result, computed when it is eligible.\<close>

definition match_score :: "string \<Rightarrow> string \<Rightarrow> yt_result \<Rightarrow> nat" where
  "match_score norm_artist norm_title result =
     (let norm_result_artist = normalize_for_matching (result_artist_of result);
          norm_result_title = normalize_for_matching (dict_get (res_title result) []);
          artist_match = (sublist norm_artist norm_result_artist \<or> sublist norm_result_artist norm_artist);
          title_match = (sublist norm_title norm_result_title \<or> sublist norm_result_title norm_title)
      in (if norm_artist = norm_result_artist then 2 else if artist_match then 1 else 0)
       + (if norm_title = norm_result_title then 2 else if title_match then 1 else 0))"

text \<open>Lines 373-402: one iteration of the loop over the results.\<close>

definition score_step ::
  "string \<Rightarrow> string \<Rightarrow> yt_result option \<times> nat \<Rightarrow> yt_result \<Rightarrow> yt_result option \<times> nat" where
  "score_step norm_artist norm_title acc result =
     (case acc of (best_match, best_score) \<Rightarrow>
        if eligible norm_artist norm_title result then
          (let score = match_score norm_artist norm_title result
           in if score > best_score then (Some result, score) else (best_match, best_score))
        else (best_match, best_score))"

text \<open>Lines 367-405: the best match of a result list, \<open>None\<close> for no match.\<close>

definition select_best_match :: "string \<Rightarrow> string \<Rightarrow> yt_result list \<Rightarrow> yt_result option" where
  "select_best_match artist title results =
     (let norm_artist = normalize_for_matching artist;
          norm_title = normalize_for_matching title
      in case foldl (score_step norm_artist norm_title) (None, 0) results of
           (best_match, best_score) \<Rightarrow>
             if best_match = None \<or> best_score < 2 then None else best_match)"

subsection \<open>Track number within the album\<close>

record album_track =
  at_videoId :: "string option"
  at_title :: "string option"

text \<open>
  Lines 436-446: the loop over \<^verbatim>\<open>enumerate(album_tracks, start=1)\<close>; the last argument
  is the value of \<^verbatim>\<open>track_number\<close> before the loop.
\<close>

fun album_track_loop :: "string \<Rightarrow> string \<Rightarrow> nat \<Rightarrow> album_track list \<Rightarrow> nat \<Rightarrow> nat" where
  "album_track_loop video_id norm_search_title idx [] track_number = track_number"
| "album_track_loop video_id norm_search_title idx (track # rest) track_number =
     (let track_video_id = dict_get (at_videoId track) [];
          track_title = dict_get (at_title track) [];
          norm_track_title = normalize_for_matching track_title
      in if track_video_id = video_id then idx
         else if norm_track_title = norm_search_title then idx
         else album_track_loop video_id norm_search_title (idx + 1) rest track_number)"

text \<open>Lines 420 and 433-446: the track number given the album's track list.\<close>

definition album_track_number :: "string \<Rightarrow> string \<Rightarrow> album_track list \<Rightarrow> nat" where
  "album_track_number video_id title album_tracks =
     album_track_loop video_id (normalize_for_matching title) 1 album_tracks 1"

text \<open>A track of the album matches by external id or by normalized title.\<close>

definition track_matches :: "string \<Rightarrow> string \<Rightarrow> album_track \<Rightarrow> bool" where
  "track_matches video_id title track =
     (dict_get (at_videoId track) [] = video_id
      \<or> normalize_for_matching (dict_get (at_title track) []) = normalize_for_matching title)"

subsection \<open>Delays of the library scan\<close>

text \<open>Line 747 and line 791.\<close>

definition wait_time :: "'a list \<Rightarrow> int" where
  "wait_time downloaded_tracks = min (max (int (length downloaded_tracks)) 5) 30"

definition retry_wait :: "'a list \<Rightarrow> int" where
  "retry_wait not_found_tracks = min (int (length not_found_tracks) * 2) 30"

text \<open>The specification's \<open>clamp(x, lo, hi)\<close>.\<close>

definition clamp :: "int \<Rightarrow> int \<Rightarrow> int \<Rightarrow> int" where
  "clamp x lo hi = (if x < lo then lo else if hi < x then hi else x)"

section \<open>The outside world\<close>

text \<open>
  Every call that leaves the process (HTTP requests, the catalogue client, the
  downloader, the file system, the clock) is an oracle of the environment \<open>E\<close>: it
  takes the state of the world \<open>'w\<close> and returns its answer with the next state. A call
  that may raise returns \<open>Inl\<close> of the exception. The answers are typed views of the
  JSON the code reads, after the chain of \<^verbatim>\<open>.get\<close> calls with their defaults.
\<close>

datatype py_exception =
  RequestException | OSError | TimeoutExpired | ValueError | KeyError | AttributeError
  | OtherException

type_synonym path = "string list"

text \<open>A track entry of the feed: \<^verbatim>\<open>{name, artists: [{name}], album}\<close>.\<close>

record feed_track =
  trk_name :: "string option"
  trk_artists :: "string option list"
  trk_album :: "string option"

text \<open>A song of a \<^verbatim>\<open>search3\<close> answer and a playlist of a \<^verbatim>\<open>getPlaylists\<close> answer.\<close>

record song =
  song_id :: "string option"
  song_path :: "string option"

record playlist_entry =
  pl_id :: "string option"
  pl_name :: "string option"

text \<open>
  The parameters of a \<^verbatim>\<open>createPlaylist\<close> request: a name (line 636), or a playlist id
  with the song ids when the parameter \<^verbatim>\<open>songId\<close> is sent (lines 839-842) and without
  it (lines 610-612, 845-847).
\<close>

datatype create_params = ByName string | ById string "string list option"

text \<open>
  The album details of the catalogue. \<open>ad_releaseDate\<close> is \<open>Some y\<close> for a non-empty
  object, \<open>y\<close> being its optional \<^verbatim>\<open>year\<close> as \<^verbatim>\<open>str\<close> prints it; \<open>ad_year\<close> is the
  \<^verbatim>\<open>year\<close> key as \<^verbatim>\<open>str\<close> prints it.
\<close>

record album_details =
  ad_title :: "string option"
  ad_releaseDate :: "string option option"
  ad_year :: "string option"
  ad_tracks :: "album_track list"

text \<open>The dictionary returned by \<^verbatim>\<open>search_ytmusic_track\<close> (lines 464-473).\<close>

record track_info =
  ti_video_id :: string
  ti_title :: string
  ti_artist :: string
  ti_album :: string
  ti_year :: string
  ti_track_number :: nat
  ti_cover_url :: "string option"
  ti_url :: string

text \<open>
  The configuration of one playlist (lines 105-152) and the two dictionaries of the
  syncer, \<^verbatim>\<open>self.playlists\<close> and \<^verbatim>\<open>self.listenbrainz_playlists\<close>, as association
  lists. \<open>cfg_dir\<close> is \<open>None\<close> for the playlist built from the library.
\<close>

record playlist_config =
  cfg_enabled :: bool
  cfg_tracks :: int
  cfg_url :: string
  cfg_name :: string
  cfg_dir :: "path option"
  cfg_schedule :: string
  cfg_playlist_type :: string

record syncer =
  syn_playlists :: "(string \<times> playlist_config) list"
  syn_listenbrainz_playlists :: "(string \<times> playlist_config) list"

text \<open>
  \<open>fetch_listenbrainz\<close> stands for the ListenBrainz client (lines 175-280, out of
  scope), whose two functions catch every exception and return a possibly empty
  track list. \<open>write_tags\<close> stands for \<^verbatim>\<open>set_metadata\<close> (lines 535-582), whose body
  is one \<^verbatim>\<open>try\<close> block that catches every exception. \<open>new_syncer\<close> stands for the
  constructor \<^verbatim>\<open>NavidroFM()\<close> (lines 43-154), the setup phase: it reads the
  configuration and authenticates, and raises when either fails. \<open>acquire_lock\<close>
  (lines 20-27) answers whether the lock was obtained.
\<close>

record 'w env =
  requests_get :: "'w \<Rightarrow> string \<Rightarrow> (py_exception + feed_track list) \<times> 'w"
  fetch_listenbrainz :: "'w \<Rightarrow> string \<Rightarrow> int \<Rightarrow> feed_track list \<times> 'w"
  time_sleep :: "'w \<Rightarrow> int \<Rightarrow> 'w"
  search3 :: "'w \<Rightarrow> string \<Rightarrow> nat \<Rightarrow> (py_exception + song list) \<times> 'w"
  getPlaylists :: "'w \<Rightarrow> (py_exception + playlist_entry list) \<times> 'w"
  createPlaylist :: "'w \<Rightarrow> create_params \<Rightarrow> (py_exception + string option) \<times> 'w"
  startScan :: "'w \<Rightarrow> string option \<Rightarrow> (py_exception + unit) \<times> 'w"
  getScanStatus :: "'w \<Rightarrow> (py_exception + bool) \<times> 'w"
  ytmusic_search :: "'w \<Rightarrow> string \<Rightarrow> (py_exception + yt_result list) \<times> 'w"
  ytmusic_get_album :: "'w \<Rightarrow> string \<Rightarrow> (py_exception + album_details) \<times> 'w"
  subprocess_run :: "'w \<Rightarrow> string list \<Rightarrow> (py_exception + int) \<times> 'w"
  write_tags :: "'w \<Rightarrow> path \<Rightarrow> track_info \<Rightarrow> 'w"
  path_exists :: "'w \<Rightarrow> path \<Rightarrow> (py_exception + bool) \<times> 'w"
  path_is_file :: "'w \<Rightarrow> path \<Rightarrow> (py_exception + bool) \<times> 'w"
  path_glob :: "'w \<Rightarrow> path \<Rightarrow> (py_exception + path list) \<times> 'w"
  path_unlink :: "'w \<Rightarrow> path \<Rightarrow> (py_exception + unit) \<times> 'w"
  path_mkdir :: "'w \<Rightarrow> path \<Rightarrow> (py_exception + unit) \<times> 'w"
  os_chmod :: "'w \<Rightarrow> path \<Rightarrow> nat \<Rightarrow> (py_exception + unit) \<times> 'w"
  os_getenv :: "string \<Rightarrow> string option"
  new_syncer :: "'w \<Rightarrow> (py_exception + syncer) \<times> 'w"
  acquire_lock :: "'w \<Rightarrow> bool \<times> 'w"
  release_lock :: "'w \<Rightarrow> 'w"

section \<open>Fetching candidates\<close>

text \<open>Line 312: the name of the first artist, \<^verbatim>\<open>''\<close> without artists.\<close>

definition first_artist_name :: "feed_track \<Rightarrow> string \<Rightarrow> string" where
  "first_artist_name track dflt =
     (case trk_artists track of [] \<Rightarrow> dflt | a # _ \<Rightarrow> dict_get a dflt)"

text \<open>Line 313: \<^verbatim>\<open>f"{artist_name}:{track_name}"\<close>.\<close>

definition track_id_of :: "feed_track \<Rightarrow> string" where
  "track_id_of track = first_artist_name track [] @ '':'' @ dict_get (trk_name track) []"

text \<open>
  Lines 309-321: the loop over the tracks of one answer. The state is
  \<^verbatim>\<open>all_tracks\<close>, \<^verbatim>\<open>seen_ids\<close> and \<^verbatim>\<open>new_tracks\<close>; the loop breaks when \<^verbatim>\<open>all_tracks\<close>
  has reached \<^verbatim>\<open>fetch_count\<close>.
\<close>

fun add_tracks ::
  "int \<Rightarrow> feed_track list \<Rightarrow> feed_track list \<times> string set \<times> nat
     \<Rightarrow> feed_track list \<times> string set \<times> nat" where
  "add_tracks fetch_count [] st = st"
| "add_tracks fetch_count (track # rest) (all_tracks, seen_ids, new_tracks) =
     (let track_name = dict_get (trk_name track) [];
          artist_name = first_artist_name track [];
          track_id = artist_name @ '':'' @ track_name
      in if track_id \<notin> seen_ids \<and> track_name \<noteq> [] \<and> artist_name \<noteq> [] then
           (if int (length (all_tracks @ [track])) \<ge> fetch_count
            then (all_tracks @ [track], insert track_id seen_ids, new_tracks + 1)
            else add_tracks fetch_count rest
                   (all_tracks @ [track], insert track_id seen_ids, new_tracks + 1))
         else add_tracks fetch_count rest (all_tracks, seen_ids, new_tracks))"

text \<open>
  Lines 294-334: the query loop. An exception of the request, an empty answer and
  an answer without new tracks end it; \<^verbatim>\<open>max_attempts\<close> is 20.
\<close>

function fetch_loop ::
  "'w env \<Rightarrow> string \<Rightarrow> int \<Rightarrow> feed_track list \<times> string set \<times> nat \<Rightarrow> 'w
     \<Rightarrow> feed_track list \<times> 'w" where
  "fetch_loop E url fetch_count (all_tracks, seen_ids, attempts) w =
     (if int (length all_tracks) < fetch_count \<and> attempts < 20 then
        (case requests_get E w url of
           (Inl e, w1) \<Rightarrow> (all_tracks, w1)
         | (Inr tracks, w1) \<Rightarrow>
             if tracks = [] then (all_tracks, w1)
             else (case add_tracks fetch_count tracks (all_tracks, seen_ids, 0) of
                     (all_tracks', seen_ids', new_tracks) \<Rightarrow>
                       if new_tracks = 0 then (all_tracks', w1)
                       else if int (length all_tracks') < fetch_count
                       then fetch_loop E url fetch_count (all_tracks', seen_ids', attempts + 1)
                              (time_sleep E w1 1)
                       else fetch_loop E url fetch_count (all_tracks', seen_ids', attempts + 1) w1))
      else (all_tracks, w))"
  by pat_completeness auto
termination
  by (relation "measure (\<lambda>(E, url, fetch_count, (all_tracks, seen_ids, attempts), w). 20 - attempts)")
     auto

declare fetch_loop.simps [simp del]

text \<open>Lines 282-337; \<^verbatim>\<open>backup_multiplier\<close> is 3.\<close>

definition fetch_lastfm_tracks :: "'w env \<Rightarrow> 'w \<Rightarrow> string \<Rightarrow> int \<Rightarrow> feed_track list \<times> 'w" where
  "fetch_lastfm_tracks E w url num_tracks = fetch_loop E url (num_tracks * 3) ([], {}, 0) w"

text \<open>
  The identity key of the specification's data model: the pair (artist, title),
  case-folded.
\<close>

definition casefold_key :: "feed_track \<Rightarrow> string \<times> string" where
  "casefold_key track =
     (py_lower (first_artist_name track []), py_lower (dict_get (trk_name track) []))"

text \<open>An environment in which every call fails or answers with nothing.\<close>

definition quiet_env :: "'w env" where
  "quiet_env =
     \<lparr>requests_get = (\<lambda>w url. (Inl RequestException, w)),
      fetch_listenbrainz = (\<lambda>w t n. ([], w)),
      time_sleep = (\<lambda>w n. w),
      search3 = (\<lambda>w q n. (Inr [], w)),
      getPlaylists = (\<lambda>w. (Inl RequestException, w)),
      createPlaylist = (\<lambda>w p. (Inl RequestException, w)),
      startScan = (\<lambda>w t. (Inr (), w)),
      getScanStatus = (\<lambda>w. (Inr False, w)),
      ytmusic_search = (\<lambda>w q. (Inr [], w)),
      ytmusic_get_album = (\<lambda>w a. (Inl OtherException, w)),
      subprocess_run = (\<lambda>w c. (Inr 1, w)),
      write_tags = (\<lambda>w p i. w),
      path_exists = (\<lambda>w p. (Inr False, w)),
      path_is_file = (\<lambda>w p. (Inr False, w)),
      path_glob = (\<lambda>w p. (Inr [], w)),
      path_unlink = (\<lambda>w p. (Inr (), w)),
      path_mkdir = (\<lambda>w p. (Inr (), w)),
      os_chmod = (\<lambda>w p m. (Inr (), w)),
      os_getenv = (\<lambda>n. None),
      new_syncer = (\<lambda>w. (Inl ValueError, w)),
      acquire_lock = (\<lambda>w. (True, w)),
      release_lock = (\<lambda>w. w)\<rparr>"

section \<open>Library and catalogue lookups\<close>

text \<open>
  Lines 650-669. The whole body is inside \<^verbatim>\<open>try\<close>; an exception of the request and
  the \<^verbatim>\<open>KeyError\<close> of a first song without \<^verbatim>\<open>id\<close> both give \<^verbatim>\<open>None\<close>.
\<close>

definition search_navidrome_track :: "'w env \<Rightarrow> 'w \<Rightarrow> string \<Rightarrow> string \<Rightarrow> string option \<times> 'w" where
  "search_navidrome_track E w artist title =
     (let query = artist @ '' '' @ title
      in case search3 E w query 5 of
           (Inl e, w1) \<Rightarrow> (None, w1)
         | (Inr songs, w1) \<Rightarrow>
             (case songs of [] \<Rightarrow> (None, w1) | s # _ \<Rightarrow> (song_id s, w1)))"

text \<open>\<^verbatim>\<open>s.split(sep)[0]\<close>: the part of \<open>s\<close> before the first occurrence of \<open>sep\<close>.\<close>

fun split_head :: "string \<Rightarrow> string \<Rightarrow> string" where
  "split_head sep [] = []"
| "split_head sep (c # cs) = (if prefix sep (c # cs) then [] else c # split_head sep cs)"

text \<open>Lines 457-462: the cover URL from the last thumbnail.\<close>

definition cover_url_of :: "string option list \<Rightarrow> string option" where
  "cover_url_of thumbnails =
     (if thumbnails \<noteq> [] then
        (let cover_url = dict_get (last thumbnails) []
         in if cover_url \<noteq> [] \<and> sublist ''=w'' cover_url
            then Some (split_head ''=w'' cover_url) else Some cover_url)
      else None)"

text \<open>Lines 427-431: the release year.\<close>

definition album_year :: "album_details \<Rightarrow> string" where
  "album_year album_details =
     (case ad_releaseDate album_details of
        Some y \<Rightarrow> dict_get y []
      | None \<Rightarrow> if truthy (ad_year album_details) then dict_get (ad_year album_details) [] else [])"

text \<open>
  Lines 358-477. The whole body is inside \<^verbatim>\<open>try\<close>, so an exception of the search
  gives \<^verbatim>\<open>None\<close>; an exception of the album lookup (lines 423-449) leaves the album
  name, the year \<^verbatim>\<open>''\<close> and the track number 1 as they were before it.
\<close>

definition search_ytmusic_track ::
  "'w env \<Rightarrow> 'w \<Rightarrow> string \<Rightarrow> string \<Rightarrow> track_info option \<times> 'w" where
  "search_ytmusic_track E w artist title =
     (let query = artist @ '' '' @ title
      in case ytmusic_search E w query of
           (Inl e, w1) \<Rightarrow> (None, w1)
         | (Inr results, w1) \<Rightarrow>
             if results = [] then (None, w1)
             else
               (case select_best_match artist title results of
                  None \<Rightarrow> (None, w1)
                | Some best_match \<Rightarrow>
                    if \<not> truthy (res_videoId best_match) then (None, w1)
                    else
                      (let video_id = dict_get (res_videoId best_match) [];
                           album_name0 =
                             (case res_album best_match of
                                None \<Rightarrow> title
                              | Some album_info \<Rightarrow> dict_get (alb_name album_info) title);
                           album_id =
                             (case res_album best_match of
                                None \<Rightarrow> None
                              | Some album_info \<Rightarrow> alb_id album_info);
                           artist_name =
                             (case res_artists best_match of
                                ArtistDicts ds \<Rightarrow> py_join '', '' (map (\<lambda>a. dict_get a []) ds)
                              | ArtistOther s \<Rightarrow> artist);
                           cover_url = cover_url_of (res_thumbnails best_match)
                       in case
                            (if truthy album_id then
                               (case ytmusic_get_album E w1 (dict_get album_id []) of
                                  (Inl e, w2) \<Rightarrow> (album_name0, [], 1, w2)
                                | (Inr album_details, w2) \<Rightarrow>
                                    (dict_get (ad_title album_details) album_name0,
                                     album_year album_details,
                                     album_track_number video_id title (ad_tracks album_details),
                                     w2))
                             else (album_name0, [], 1, w1)) of
                            (album_name, year, track_number, w2) \<Rightarrow>
                              (Some \<lparr>ti_video_id = video_id,
                                     ti_title = dict_get (res_title best_match) title,
                                     ti_artist = (if artist_name \<noteq> [] then artist_name else artist),
                                     ti_album = album_name,
                                     ti_year = year,
                                     ti_track_number = track_number,
                                     ti_cover_url = cover_url,
                                     ti_url = ''https://music.youtube.com/watch?v='' @ video_id\<rparr>,
                               w2))))"

section \<open>Download\<close>

text \<open>
  A path is the list of its components below the root; \<open>path_str\<close> prints it.
\<close>

definition path_str :: "path \<Rightarrow> string" where
  "path_str p = ''/'' @ py_join ''/'' p"

definition cookie_file :: path where
  "cookie_file = [''app'', ''cookies'', ''cookies.txt'']"

definition music_dir :: path where
  "music_dir = [''music'', ''navidrofm'']"

text \<open>\<^verbatim>\<open>s.split()\<close>: the maximal runs of non-whitespace; \<open>cur\<close> is the run being read.\<close>

fun split_ws :: "string \<Rightarrow> string \<Rightarrow> string list" where
  "split_ws cur [] = (if cur = [] then [] else [cur])"
| "split_ws cur (c # cs) =
     (if py_isspace c then (if cur = [] then split_ws [] cs else cur # split_ws [] cs)
      else split_ws (cur @ [c]) cs)"

text \<open>Lines 584-590; the invalid characters are \<^verbatim>\<open><>:"/\|?*\<close>.\<close>

definition invalid_chars :: string where
  "invalid_chars = [CHR ''<'', CHR ''>'', CHR '':'', CHR 0x22, CHR ''/'', CHR 0x5C,
                    CHR ''|'', CHR ''?'', CHR ''*'']"

definition sanitize_filename :: "string \<Rightarrow> string" where
  "sanitize_filename filename =
     py_strip (py_join '' '' (split_ws [] (filter (\<lambda>c. c \<notin> set invalid_chars) filename)))"

text \<open>
  Lines 479-533. The whole body is inside \<^verbatim>\<open>try\<close>: a timeout and any other
  exception, also one of \<^verbatim>\<open>os.chmod\<close> after a successful download, give \<^verbatim>\<open>False\<close>.
  The mode \<^verbatim>\<open>0o666\<close> is 438.
\<close>

definition download_track_ytmusic ::
  "'w env \<Rightarrow> 'w \<Rightarrow> string \<Rightarrow> path \<Rightarrow> track_info \<Rightarrow> bool \<Rightarrow> bool \<times> 'w" where
  "download_track_ytmusic E w video_id output_dir metadata is_first_track =
     (let w0 = (if is_first_track then time_sleep E w 2 else w);
          artist = ti_artist metadata;
          title = ti_title metadata;
          safe_filename = sanitize_filename (artist @ '' - '' @ title);
          url = ''https://music.youtube.com/watch?v='' @ video_id;
          cmd = [''yt-dlp'', ''-x'', ''--audio-format'', ''mp3'', ''--audio-quality'', ''0'',
                 ''--embed-thumbnail'', ''--no-embed-info-json'',
                 ''--output'', path_str (output_dir @ [safe_filename @ ''.%(ext)s'']),
                 ''--format'', ''bestaudio'',
                 ''--extractor-args'', ''youtube:player_client=default,mweb'']
      in case path_exists E w0 cookie_file of
           (Inl e, w1) \<Rightarrow> (False, w1)
         | (Inr has_cookies, w1) \<Rightarrow>
             (case subprocess_run E w1
                     ((if has_cookies then cmd @ [''--cookies'', path_str cookie_file] else cmd)
                      @ [url]) of
                (Inl e, w2) \<Rightarrow> (False, w2)
              | (Inr returncode, w2) \<Rightarrow>
                  if returncode = 0 then
                    (let audio_file = output_dir @ [safe_filename @ ''.mp3'']
                     in case path_exists E w2 audio_file of
                          (Inl e, w3) \<Rightarrow> (False, w3)
                        | (Inr present, w3) \<Rightarrow>
                            if present then
                              (case os_chmod E (write_tags E w3 audio_file metadata) audio_file 438 of
                                 (Inl e, w4) \<Rightarrow> (False, w4)
                               | (Inr u, w4) \<Rightarrow> (True, w4))
                            else (True, w3))
                  else (False, w2)))"

section \<open>Library scan and resolution\<close>

text \<open>\<^verbatim>\<open>Path.relative_to\<close> raises \<^verbatim>\<open>ValueError\<close> when the path is not below the base.\<close>

definition relative_to :: "path \<Rightarrow> path \<Rightarrow> py_exception + path" where
  "relative_to p base = (if prefix base p then Inr (drop (length base) p) else Inl ValueError)"

definition rel_path_str :: "path \<Rightarrow> string" where
  "rel_path_str p = (if p = [] then ''.'' else py_join ''/'' p)"

text \<open>
  Lines 725-745: the polling loop. It has no bound: when the server never reports
  the end of the scan, and when every status request raises, it does not return,
  which is the value \<open>None\<close>. The counter \<^verbatim>\<open>scan_time\<close> only feeds the log.
\<close>

partial_function (option) wait_for_scan :: "'w env \<Rightarrow> 'w \<Rightarrow> 'w option" where
  "wait_for_scan E w =
     (case getScanStatus E (time_sleep E w 2) of
        (Inl e, w1) \<Rightarrow> wait_for_scan E w1
      | (Inr scanning, w1) \<Rightarrow> if \<not> scanning then Some w1 else wait_for_scan E w1)"

text \<open>
  Lines 755-788: the first pass over the downloaded tracks. The state is
  \<^verbatim>\<open>song_ids\<close>, \<^verbatim>\<open>not_found_tracks\<close> and the world.
\<close>

fun first_pass ::
  "'w env \<Rightarrow> track_info list \<Rightarrow> string list \<times> track_info list \<times> 'w
     \<Rightarrow> string list \<times> track_info list \<times> 'w" where
  "first_pass E [] st = st"
| "first_pass E (track_info # rest) (song_ids, not_found_tracks, w) =
     (let artist = ti_artist track_info;
          title = ti_title track_info
      in if artist = [] \<or> title = [] then first_pass E rest (song_ids, not_found_tracks, w)
         else
           (case search3 E w (artist @ '' '' @ title) 10 of
              (Inl e, w1) \<Rightarrow> first_pass E rest (song_ids, not_found_tracks @ [track_info], w1)
            | (Inr songs, w1) \<Rightarrow>
                (case songs of
                   [] \<Rightarrow> first_pass E rest (song_ids, not_found_tracks @ [track_info], w1)
                 | s # _ \<Rightarrow>
                     if truthy (song_id s)
                     then first_pass E rest (song_ids @ [dict_get (song_id s) []], not_found_tracks, w1)
                     else first_pass E rest (song_ids, not_found_tracks @ [track_info], w1))))"

text \<open>Lines 795-822: the retry pass over the tracks that were not found.\<close>

fun retry_pass ::
  "'w env \<Rightarrow> track_info list \<Rightarrow> string list \<times> 'w \<Rightarrow> string list \<times> 'w" where
  "retry_pass E [] st = st"
| "retry_pass E (track_info # rest) (song_ids, w) =
     (let artist = ti_artist track_info;
          title = ti_title track_info
      in if artist = [] \<or> title = [] then retry_pass E rest (song_ids, w)
         else
           (case search3 E w (artist @ '' '' @ title) 10 of
              (Inl e, w1) \<Rightarrow> retry_pass E rest (song_ids, w1)
            | (Inr songs, w1) \<Rightarrow>
                (case songs of
                   [] \<Rightarrow> retry_pass E rest (song_ids, w1)
                 | s # _ \<Rightarrow>
                     if truthy (song_id s)
                     then retry_pass E rest (song_ids @ [dict_get (song_id s) []], w1)
                     else retry_pass E rest (song_ids, w1))))"

text \<open>Lines 751-825: both passes, with the delay before the retry.\<close>

definition resolve_downloaded :: "'w env \<Rightarrow> 'w \<Rightarrow> track_info list \<Rightarrow> string list \<times> 'w" where
  "resolve_downloaded E w downloaded_tracks =
     (case first_pass E downloaded_tracks ([], [], w) of
        (song_ids, not_found_tracks, w1) \<Rightarrow>
          if not_found_tracks \<noteq> []
          then retry_pass E not_found_tracks
                 (song_ids, time_sleep E w1 (retry_wait not_found_tracks))
          else (song_ids, w1))"

text \<open>
  Lines 697-831. A \<^verbatim>\<open>ValueError\<close> inside the inner \<^verbatim>\<open>try\<close> (lines 706-716), from
  \<^verbatim>\<open>relative_to\<close> or from the request of the selective scan, leads to the request
  of the scan without target; any other exception of a \<^verbatim>\<open>startScan\<close> request
  reaches the outer \<^verbatim>\<open>except\<close>, which returns the empty list.
\<close>

definition scan_and_get_songs_from_directory ::
  "'w env \<Rightarrow> 'w \<Rightarrow> path \<Rightarrow> track_info list \<Rightarrow> (string list \<times> 'w) option" where
  "scan_and_get_songs_from_directory E w directory downloaded_tracks =
     (if downloaded_tracks = [] then Some ([], w)
      else
        (case (case relative_to directory [''music''] of
                 Inr relative_path \<Rightarrow>
                   (let library_id = dict_get (os_getenv E ''NAVIDROME_LIBRARY_ID'') ''1'';
                        target_path = library_id @ '':'' @ rel_path_str relative_path
                    in case startScan E w (Some target_path) of
                         (Inl e, w0) \<Rightarrow>
                           if e = ValueError then startScan E w0 None else (Inl e, w0)
                       | (Inr u, w0) \<Rightarrow> (Inr u, w0))
               | Inl e \<Rightarrow> startScan E w None) of
           (Inl e, w1) \<Rightarrow> Some ([], w1)
         | (Inr u, w1) \<Rightarrow>
             (case wait_for_scan E w1 of
                None \<Rightarrow> None
              | Some w2 \<Rightarrow>
                  Some (resolve_downloaded E (time_sleep E w2 (wait_time downloaded_tracks))
                          downloaded_tracks))))"

subsection \<open>The resolution as the specification words it\<close>

text \<open>
  One query of the library by (artist, title): the identifier of the first song of
  the answer, when the request succeeds and that identifier is usable.
\<close>

definition library_lookup :: "'w env \<Rightarrow> 'w \<Rightarrow> track_info \<Rightarrow> string option \<times> 'w" where
  "library_lookup E w t =
     (case search3 E w (ti_artist t @ '' '' @ ti_title t) 10 of
        (Inl e, w1) \<Rightarrow> (None, w1)
      | (Inr songs, w1) \<Rightarrow>
          (case songs of
             [] \<Rightarrow> (None, w1)
           | s # _ \<Rightarrow> (if truthy (song_id s) then song_id s else None, w1)))"

text \<open>One query for each track of a list, in order.\<close>

fun lookup_each :: "'w env \<Rightarrow> 'w \<Rightarrow> track_info list \<Rightarrow> string option list \<times> 'w" where
  "lookup_each E w [] = ([], w)"
| "lookup_each E w (t # ts) =
     (case library_lookup E w t of
        (r, w1) \<Rightarrow> (case lookup_each E w1 ts of (rs, w2) \<Rightarrow> (r # rs, w2)))"

text \<open>The identifiers found, and the tracks not found, in the order of the queries.\<close>

definition found_ids :: "string option list \<Rightarrow> string list" where
  "found_ids rs = concat (map (\<lambda>r. case r of None \<Rightarrow> [] | Some x \<Rightarrow> [x]) rs)"

definition missed :: "track_info list \<Rightarrow> string option list \<Rightarrow> track_info list" where
  "missed ts rs = map fst (filter (\<lambda>p. snd p = None) (zip ts rs))"

text \<open>The tracks that are queried at all: those with an artist and a title.\<close>

definition queried :: "track_info list \<Rightarrow> track_info list" where
  "queried ts = filter (\<lambda>t. ti_artist t \<noteq> [] \<and> ti_title t \<noteq> []) ts"

text \<open>
  A library whose answer to a query depends on the number of queries made before;
  the world is that number.
\<close>

definition library_env :: "(nat \<Rightarrow> string \<Rightarrow> song list) \<Rightarrow> nat env" where
  "library_env answer = quiet_env\<lparr>search3 := (\<lambda>w q n. (Inr (answer w q), w + 1))\<rparr>"

text \<open>Example tracks, and a library that finds one of them only from the fourth query on.\<close>

definition example_track :: "string \<Rightarrow> string \<Rightarrow> track_info" where
  "example_track artist title =
     \<lparr>ti_video_id = ''v'', ti_title = title, ti_artist = artist, ti_album = title,
      ti_year = [], ti_track_number = 1, ti_cover_url = None,
      ti_url = ''https://music.youtube.com/watch?v=v''\<rparr>"

definition late_library :: "nat \<Rightarrow> string \<Rightarrow> song list" where
  "late_library n q =
     (if q = ''Abba Waterloo'' then [\<lparr>song_id = Some ''s1'', song_path = None\<rparr>]
      else if q = ''Blur Song 2'' \<and> 3 \<le> n then [\<lparr>song_id = Some ''s2'', song_path = None\<rparr>]
      else [])"

section \<open>The reconciliation loop\<close>

text \<open>
  Lines 952-977: what the loop does with one candidate, without its bookkeeping.
  The four results are the outcomes of the specification's Acquirer.
\<close>

datatype acquire_result =
  AlreadyPresent string | AcquiredTrack track_info | NotFound | DownloadFailed

definition acquire ::
  "'w env \<Rightarrow> 'w \<Rightarrow> path \<Rightarrow> string \<Rightarrow> string \<Rightarrow> acquire_result \<times> 'w" where
  "acquire E w playlist_dir artist title =
     (case search_navidrome_track E w artist title of
        (existing_song_id, w1) \<Rightarrow>
          if truthy existing_song_id then (AlreadyPresent (dict_get existing_song_id []), w1)
          else
            (case search_ytmusic_track E w1 artist title of
               (None, w2) \<Rightarrow> (NotFound, w2)
             | (Some ytmusic_info, w2) \<Rightarrow>
                 (case download_track_ytmusic E w2 (ti_video_id ytmusic_info) playlist_dir
                         ytmusic_info False of
                    (downloaded, w3) \<Rightarrow>
                      if downloaded then (AcquiredTrack ytmusic_info, w3)
                      else (DownloadFailed, w3))))"

text \<open>The variables of the loop (lines 935-939 and \<^verbatim>\<open>song_ids\<close> of line 881).\<close>

record loop_state =
  ls_success_count :: int
  ls_track_index :: nat
  ls_song_ids :: "string list"
  ls_downloaded_tracks :: "track_info list"
  ls_skipped_count :: int

definition initial_loop_state :: loop_state where
  "initial_loop_state =
     \<lparr>ls_success_count = 0, ls_track_index = 0, ls_song_ids = [],
      ls_downloaded_tracks = [], ls_skipped_count = 0\<rparr>"

text \<open>
  Lines 942-979. A candidate already in the library is recorded and the loop
  continues at once; in the three other cases the loop sleeps one second.
\<close>

function acquire_loop ::
  "'w env \<Rightarrow> path \<Rightarrow> int \<Rightarrow> feed_track list \<Rightarrow> loop_state \<Rightarrow> 'w \<Rightarrow> loop_state \<times> 'w" where
  "acquire_loop E playlist_dir target_count tracks st w =
     (if ls_success_count st < target_count \<and> ls_track_index st < length tracks then
        (let track = tracks ! ls_track_index st;
             st1 = st\<lparr>ls_track_index := ls_track_index st + 1\<rparr>;
             artist = first_artist_name track ''Unknown'';
             title = dict_get (trk_name track) ''Unknown''
         in case acquire E w playlist_dir artist title of
              (AlreadyPresent existing_song_id, w1) \<Rightarrow>
                acquire_loop E playlist_dir target_count tracks
                  (st1\<lparr>ls_song_ids := ls_song_ids st1 @ [existing_song_id],
                       ls_success_count := ls_success_count st1 + 1,
                       ls_skipped_count := ls_skipped_count st1 + 1\<rparr>) w1
            | (AcquiredTrack ytmusic_info, w1) \<Rightarrow>
                acquire_loop E playlist_dir target_count tracks
                  (st1\<lparr>ls_success_count := ls_success_count st1 + 1,
                       ls_downloaded_tracks := ls_downloaded_tracks st1 @ [ytmusic_info]\<rparr>)
                  (time_sleep E w1 1)
            | (NotFound, w1) \<Rightarrow>
                acquire_loop E playlist_dir target_count tracks st1 (time_sleep E w1 1)
            | (DownloadFailed, w1) \<Rightarrow>
                acquire_loop E playlist_dir target_count tracks st1 (time_sleep E w1 1))
      else (st, w))"
  by pat_completeness auto
termination
  by (relation "measure (\<lambda>(E, playlist_dir, target_count, tracks, st, w).
                  length tracks - ls_track_index st)") auto

declare acquire_loop.simps [simp del]

text \<open>
  The parts of one iteration: the acquisition for the candidate, the bookkeeping of
  its result, and the pause that follows unless the candidate was already present.
\<close>

definition record_result :: "acquire_result \<Rightarrow> loop_state \<Rightarrow> loop_state" where
  "record_result r st1 =
     (case r of
        AlreadyPresent existing_song_id \<Rightarrow>
          st1\<lparr>ls_song_ids := ls_song_ids st1 @ [existing_song_id],
              ls_success_count := ls_success_count st1 + 1,
              ls_skipped_count := ls_skipped_count st1 + 1\<rparr>
      | AcquiredTrack ytmusic_info \<Rightarrow>
          st1\<lparr>ls_success_count := ls_success_count st1 + 1,
              ls_downloaded_tracks := ls_downloaded_tracks st1 @ [ytmusic_info]\<rparr>
      | NotFound \<Rightarrow> st1
      | DownloadFailed \<Rightarrow> st1)"

definition candidate_result :: "'w env \<Rightarrow> path \<Rightarrow> feed_track \<Rightarrow> 'w \<Rightarrow> acquire_result \<times> 'w" where
  "candidate_result E playlist_dir track w =
     acquire E w playlist_dir (first_artist_name track ''Unknown'') (dict_get (trk_name track) ''Unknown'')"

definition after_attempt :: "'w env \<Rightarrow> acquire_result \<Rightarrow> 'w \<Rightarrow> 'w" where
  "after_attempt E r w1 = (case r of AlreadyPresent i \<Rightarrow> w1 | _ \<Rightarrow> time_sleep E w1 1)"

text \<open>An acquirer that succeeds on every candidate, in every state of the world.\<close>

definition succeeded :: "acquire_result \<Rightarrow> bool" where
  "succeeded r = (case r of AlreadyPresent i \<Rightarrow> True | AcquiredTrack t \<Rightarrow> True
                  | NotFound \<Rightarrow> False | DownloadFailed \<Rightarrow> False)"

definition always_available :: "'w env \<Rightarrow> path \<Rightarrow> bool" where
  "always_available E playlist_dir =
     (\<forall>w artist title. succeeded (fst (acquire E w playlist_dir artist title)))"

text \<open>One iteration on the state: the index advances and the result is recorded.\<close>

definition loop_step :: "loop_state \<Rightarrow> acquire_result \<Rightarrow> loop_state" where
  "loop_step st r = record_result r (st\<lparr>ls_track_index := ls_track_index st + 1\<rparr>)"

text \<open>
  The acquisitions for the candidates of a list, one after the other, each in the
  world the one before has left, with the pause of the loop in between.
\<close>

fun attempt_each :: "'w env \<Rightarrow> path \<Rightarrow> 'w \<Rightarrow> feed_track list \<Rightarrow> acquire_result list \<times> 'w" where
  "attempt_each E playlist_dir w [] = ([], w)"
| "attempt_each E playlist_dir w (track # rest) =
     (case candidate_result E playlist_dir track w of
        (r, w1) \<Rightarrow>
          (case attempt_each E playlist_dir (after_attempt E r w1) rest of
             (rs, w2) \<Rightarrow> (r # rs, w2)))"

text \<open>
  What a list of results puts on record: the ids of the candidates already present,
  the tracks acquired, the number of successes, and the state of the loop after
  these results.
\<close>

definition present_ids :: "acquire_result list \<Rightarrow> string list" where
  "present_ids rs =
     concat (map (\<lambda>r. case r of AlreadyPresent i \<Rightarrow> [i] | AcquiredTrack t \<Rightarrow> []
                        | NotFound \<Rightarrow> [] | DownloadFailed \<Rightarrow> []) rs)"

definition acquired_tracks :: "acquire_result list \<Rightarrow> track_info list" where
  "acquired_tracks rs =
     concat (map (\<lambda>r. case r of AlreadyPresent i \<Rightarrow> [] | AcquiredTrack t \<Rightarrow> [t]
                        | NotFound \<Rightarrow> [] | DownloadFailed \<Rightarrow> []) rs)"

definition successes :: "acquire_result list \<Rightarrow> int" where
  "successes rs = int (length (filter succeeded rs))"

definition recorded :: "acquire_result list \<Rightarrow> loop_state" where
  "recorded rs =
     \<lparr>ls_success_count = successes rs, ls_track_index = length rs,
      ls_song_ids = present_ids rs, ls_downloaded_tracks = acquired_tracks rs,
      ls_skipped_count = int (length (present_ids rs))\<rparr>"

text \<open>
  Lines 885-907: the loop of the playlist built from the library. The state is
  \<^verbatim>\<open>success_count\<close>, \<^verbatim>\<open>track_index\<close> and \<^verbatim>\<open>song_ids\<close>.
\<close>

function library_loop ::
  "'w env \<Rightarrow> int \<Rightarrow> feed_track list \<Rightarrow> int \<times> nat \<times> string list \<Rightarrow> 'w \<Rightarrow> string list \<times> 'w" where
  "library_loop E target_count tracks (success_count, track_index, song_ids) w =
     (if success_count < target_count \<and> track_index < length tracks then
        (let track = tracks ! track_index;
             artist = first_artist_name track [];
             title = dict_get (trk_name track) []
         in if artist = [] \<or> title = []
            then library_loop E target_count tracks (success_count, track_index + 1, song_ids) w
            else
              (case search_navidrome_track E w artist title of
                 (found, w1) \<Rightarrow>
                   if truthy found
                   then library_loop E target_count tracks
                          (success_count + 1, track_index + 1, song_ids @ [dict_get found []]) w1
                   else library_loop E target_count tracks
                          (success_count, track_index + 1, song_ids) w1))
      else (song_ids, w))"
  by pat_completeness auto
termination
  by (relation "measure (\<lambda>(E, target_count, tracks, (success_count, track_index, song_ids), w).
                  length tracks - track_index)") auto

declare library_loop.simps [simp del]

section \<open>Playlists\<close>

text \<open>
  Lines 630-633: the search for the playlist of the given name. \<open>None\<close>: no playlist
  has the name; \<open>Some (Inl KeyError)\<close>: an entry lacks \<^verbatim>\<open>name\<close>, or the entry found
  lacks \<^verbatim>\<open>id\<close>.
\<close>

fun find_playlist :: "string \<Rightarrow> playlist_entry list \<Rightarrow> (py_exception + string) option" where
  "find_playlist playlist_name [] = None"
| "find_playlist playlist_name (pl # rest) =
     (case pl_name pl of
        None \<Rightarrow> Some (Inl KeyError)
      | Some n \<Rightarrow>
          if n = playlist_name
          then (case pl_id pl of None \<Rightarrow> Some (Inl KeyError) | Some i \<Rightarrow> Some (Inr i))
          else find_playlist playlist_name rest)"

text \<open>Lines 619-648. The whole body is inside \<^verbatim>\<open>try\<close>; every exception gives \<^verbatim>\<open>None\<close>.\<close>

definition get_navidrome_playlist_id :: "'w env \<Rightarrow> 'w \<Rightarrow> string \<Rightarrow> string option \<times> 'w" where
  "get_navidrome_playlist_id E w playlist_name =
     (case getPlaylists E w of
        (Inl e, w1) \<Rightarrow> (None, w1)
      | (Inr playlists, w1) \<Rightarrow>
          (case find_playlist playlist_name playlists of
             Some (Inr i) \<Rightarrow> (Some i, w1)
           | Some (Inl e) \<Rightarrow> (None, w1)
           | None \<Rightarrow>
               (case createPlaylist E w1 (ByName playlist_name) of
                  (Inl e, w2) \<Rightarrow> (None, w2)
                | (Inr playlist_id, w2) \<Rightarrow> (playlist_id, w2))))"

text \<open>
  Lines 606-614: the loop that clears the managed playlists. A failed request is
  logged and the loop goes on; a missing \<^verbatim>\<open>name\<close> or \<^verbatim>\<open>id\<close> is a \<^verbatim>\<open>KeyError\<close> that
  ends the loop in the outer \<^verbatim>\<open>except\<close>.
\<close>

fun clear_managed :: "'w env \<Rightarrow> string list \<Rightarrow> playlist_entry list \<Rightarrow> 'w \<Rightarrow> 'w" where
  "clear_managed E managed_names [] w = w"
| "clear_managed E managed_names (playlist # rest) w =
     (case pl_name playlist of
        None \<Rightarrow> w
      | Some n \<Rightarrow>
          if n \<in> set managed_names then
            (case pl_id playlist of
               None \<Rightarrow> w
             | Some playlist_id \<Rightarrow>
                 clear_managed E managed_names rest
                   (snd (createPlaylist E w (ById playlist_id None))))
          else clear_managed E managed_names rest w)"

text \<open>Lines 592-617.\<close>

definition cleanup_missing_files :: "'w env \<Rightarrow> syncer \<Rightarrow> 'w \<Rightarrow> 'w" where
  "cleanup_missing_files E S w =
     (case getPlaylists E w of
        (Inl e, w1) \<Rightarrow> w1
      | (Inr playlists, w1) \<Rightarrow>
          (let managed_names = map (\<lambda>kv. cfg_name (snd kv)) (syn_playlists S)
                               @ map (\<lambda>kv. cfg_name (snd kv)) (syn_listenbrainz_playlists S)
           in clear_managed E managed_names playlists w1))"

text \<open>
  Lines 833-852. The whole body is inside \<^verbatim>\<open>try\<close>: the function makes one request
  and never raises. With song ids the request carries them; without, it carries
  the playlist id alone.
\<close>

definition update_playlist :: "'w env \<Rightarrow> 'w \<Rightarrow> string \<Rightarrow> string list \<Rightarrow> 'w" where
  "update_playlist E w playlist_id song_ids =
     (if song_ids \<noteq> [] then snd (createPlaylist E w (ById playlist_id (Some song_ids)))
      else snd (createPlaylist E w (ById playlist_id None)))"

section \<open>The sync of one playlist\<close>

text \<open>Lines 167-173.\<close>

definition get_playlist_config :: "syncer \<Rightarrow> string \<Rightarrow> playlist_config option" where
  "get_playlist_config S playlist_type =
     (case map_of (syn_playlists S) playlist_type of
        Some config \<Rightarrow> Some config
      | None \<Rightarrow> map_of (syn_listenbrainz_playlists S) playlist_type)"

text \<open>Lines 339-349.\<close>

definition fetch_tracks_for_playlist ::
  "'w env \<Rightarrow> syncer \<Rightarrow> 'w \<Rightarrow> string \<Rightarrow> playlist_config \<Rightarrow> feed_track list \<times> 'w" where
  "fetch_tracks_for_playlist E S w playlist_type config =
     (if map_of (syn_playlists S) playlist_type \<noteq> None
      then fetch_lastfm_tracks E w (cfg_url config) (cfg_tracks config)
      else if map_of (syn_listenbrainz_playlists S) playlist_type \<noteq> None
      then fetch_listenbrainz E w (cfg_playlist_type config) (cfg_tracks config)
      else ([], w))"

text \<open>
  Lines 915-921: the loop over the files of the directory. Only \<^verbatim>\<open>unlink\<close> is inside
  \<^verbatim>\<open>try\<close>; an exception of \<^verbatim>\<open>is_file\<close> leaves the loop.
\<close>

fun clear_files :: "'w env \<Rightarrow> path list \<Rightarrow> nat \<Rightarrow> 'w \<Rightarrow> (py_exception + nat) \<times> 'w" where
  "clear_files E [] file_count w = (Inr file_count, w)"
| "clear_files E (file # rest) file_count w =
     (case path_is_file E w file of
        (Inl e, w1) \<Rightarrow> (Inl e, w1)
      | (Inr regular, w1) \<Rightarrow>
          if regular then
            (case path_unlink E w1 file of
               (Inl e, w2) \<Rightarrow> clear_files E rest file_count w2
             | (Inr u, w2) \<Rightarrow> clear_files E rest (file_count + 1) w2)
          else clear_files E rest file_count w1)"

text \<open>
  Lines 910-932: the preparation of the directory. None of \<^verbatim>\<open>exists\<close>, \<^verbatim>\<open>glob\<close>,
  \<^verbatim>\<open>is_file\<close>, \<^verbatim>\<open>mkdir\<close> and \<^verbatim>\<open>os.chmod\<close> is inside \<^verbatim>\<open>try\<close>: their exceptions leave
  \<^verbatim>\<open>sync_playlist\<close>. The mode \<^verbatim>\<open>0o777\<close> is 511.
\<close>

definition prepare_directory ::
  "'w env \<Rightarrow> syncer \<Rightarrow> 'w \<Rightarrow> path \<Rightarrow> (py_exception + unit) \<times> 'w" where
  "prepare_directory E S w playlist_dir =
     (case path_exists E w playlist_dir of
        (Inl e, w1) \<Rightarrow> (Inl e, w1)
      | (Inr present, w1) \<Rightarrow>
          if present then
            (case path_glob E w1 playlist_dir of
               (Inl e, w2) \<Rightarrow> (Inl e, w2)
             | (Inr files, w2) \<Rightarrow>
                 (case clear_files E files 0 w2 of
                    (Inl e, w3) \<Rightarrow> (Inl e, w3)
                  | (Inr file_count, w3) \<Rightarrow>
                      if file_count > 0
                      then (Inr (), time_sleep E (cleanup_missing_files E S w3)
                                      (min (max (int file_count div 2) 5) 20))
                      else (Inr (), w3)))
          else
            (case path_mkdir E w1 playlist_dir of
               (Inl e, w2) \<Rightarrow> (Inl e, w2)
             | (Inr u, w2) \<Rightarrow>
                 (case os_chmod E w2 playlist_dir 511 of
                    (Inl e, w3) \<Rightarrow> (Inl e, w3)
                  | (Inr u', w3) \<Rightarrow> (Inr (), w3))))"

text \<open>
  Lines 854-995. The result is \<open>None\<close> when the polling loop of the scan does not
  return, \<open>Some (Inl e, w)\<close> when the exception \<open>e\<close> leaves the function, and
  \<open>Some (Inr (), w)\<close> when the function returns. A configuration without directory
  outside the library branch would raise \<^verbatim>\<open>AttributeError\<close> at line 912. The calls
  of \<^verbatim>\<open>log\<close> outside every \<^verbatim>\<open>try\<close> (among them lines 900 and 950, which print the
  artist and title of the feed) are taken to succeed; a \<^verbatim>\<open>print\<close> that raises would
  be one more exception that leaves the function.
\<close>

definition sync_playlist ::
  "'w env \<Rightarrow> syncer \<Rightarrow> 'w \<Rightarrow> string \<Rightarrow> ((py_exception + unit) \<times> 'w) option" where
  "sync_playlist E S w playlist_type =
     (case get_playlist_config S playlist_type of
        None \<Rightarrow> Some (Inr (), w)
      | Some config \<Rightarrow>
          if \<not> cfg_enabled config then Some (Inr (), w)
          else
            (case fetch_tracks_for_playlist E S w playlist_type config of
               (tracks, w1) \<Rightarrow>
                 if tracks = [] then Some (Inr (), w1)
                 else
                   (case get_navidrome_playlist_id E w1 (cfg_name config) of
                      (playlist_id, w2) \<Rightarrow>
                        if \<not> truthy playlist_id then Some (Inr (), w2)
                        else if playlist_type = ''library'' then
                          (case library_loop E (cfg_tracks config) tracks (0, 0, []) w2 of
                             (song_ids, w3) \<Rightarrow>
                               Some (Inr (), update_playlist E w3 (dict_get playlist_id []) song_ids))
                        else
                          (case cfg_dir config of
                             None \<Rightarrow> Some (Inl AttributeError, w2)
                           | Some playlist_dir \<Rightarrow>
                               (case prepare_directory E S w2 playlist_dir of
                                  (Inl e, w3) \<Rightarrow> Some (Inl e, w3)
                                | (Inr u, w3) \<Rightarrow>
                                    (case acquire_loop E playlist_dir (cfg_tracks config) tracks
                                            initial_loop_state (time_sleep E w3 2) of
                                       (st, w4) \<Rightarrow>
                                         if ls_downloaded_tracks st \<noteq> [] then
                                           (case scan_and_get_songs_from_directory E w4 playlist_dir
                                                   (ls_downloaded_tracks st) of
                                              None \<Rightarrow> None
                                            | Some (new_song_ids, w5) \<Rightarrow>
                                                Some (Inr (),
                                                  update_playlist E w5 (dict_get playlist_id [])
                                                    (ls_song_ids st @ new_song_ids)))
                                         else
                                           Some (Inr (),
                                             update_playlist E w4 (dict_get playlist_id [])
                                               (ls_song_ids st))))))))"

section \<open>The process\<close>

text \<open>Lines 1029-1035: the syncs of one run, in order; an exception ends them.\<close>

fun sync_each ::
  "'w env \<Rightarrow> syncer \<Rightarrow> string list \<Rightarrow> 'w \<Rightarrow> ((py_exception + unit) \<times> 'w) option" where
  "sync_each E S [] w = Some (Inr (), w)"
| "sync_each E S (ptype # rest) w =
     (case sync_playlist E S w ptype of
        None \<Rightarrow> None
      | Some (Inl e, w1) \<Rightarrow> Some (Inl e, w1)
      | Some (Inr u, w1) \<Rightarrow> sync_each E S rest w1)"

text \<open>
  Lines 1015-1050: the exit status of the process, \<open>None\<close> when it does not end. The
  schedule of lines 1037-1042 is only logged.
\<close>

definition main :: "'w env \<Rightarrow> 'w \<Rightarrow> string list \<Rightarrow> (int \<times> 'w) option" where
  "main E w argv =
     (if length argv < 2 then Some (1, w)
      else
        (let playlist_type = argv ! 1
         in case acquire_lock E w of
              (False, w1) \<Rightarrow> Some (0, w1)
            | (True, w1) \<Rightarrow>
                (case new_syncer E w1 of
                   (Inl e, w2) \<Rightarrow> Some (1, release_lock E w2)
                 | (Inr syncer, w2) \<Rightarrow>
                     (case sync_each E syncer
                             (if playlist_type = ''all''
                              then [''recommended'', ''mix'', ''library'', ''exploration'', ''jams'']
                              else [playlist_type]) w2 of
                        None \<Rightarrow> None
                      | Some (Inl e, w3) \<Rightarrow> Some (1, release_lock E w3)
                      | Some (Inr u, w3) \<Rightarrow> Some (0, release_lock E w3)))))"

section \<open>A media server\<close>

text \<open>
  Modelled from the spec: the media server is an external service, whose
  \<^verbatim>\<open>createPlaylist\<close> is "overloaded to both create, clear, and replace contents"
  (section 6). The server holds the song ids of each playlist by playlist id and,
  for the examples, the list of the requests it has received. A request by name
  creates an empty playlist; a request by id replaces the contents of that
  playlist with the song ids sent, which are none when the parameter is absent; a
  request for an unknown id changes nothing.
\<close>

record server =
  srv_playlists :: "string \<rightharpoonup> string list"
  srv_requests :: "create_params list"

definition server_createPlaylist ::
  "server \<Rightarrow> create_params \<Rightarrow> (py_exception + string option) \<times> server" where
  "server_createPlaylist s p =
     (case p of
        ByName n \<Rightarrow>
          (Inr (Some (''pl-'' @ n)),
           s\<lparr>srv_playlists := (srv_playlists s)(''pl-'' @ n \<mapsto> []),
             srv_requests := srv_requests s @ [p]\<rparr>)
      | ById i ids \<Rightarrow>
          (if srv_playlists s i = None
           then (Inr None, s\<lparr>srv_requests := srv_requests s @ [p]\<rparr>)
           else (Inr (Some i),
                 s\<lparr>srv_playlists := (srv_playlists s)(i \<mapsto> (case ids of None \<Rightarrow> [] | Some xs \<Rightarrow> xs)),
                   srv_requests := srv_requests s @ [p]\<rparr>)))"

definition server_env :: "server env" where
  "server_env = quiet_env\<lparr>createPlaylist := server_createPlaylist\<rparr>"

section \<open>Invariants and environments of the examples\<close>

text \<open>A library that has a song for every query.\<close>

definition full_library :: "nat \<Rightarrow> string \<Rightarrow> song list" where
  "full_library n q = [\<lparr>song_id = Some ''s1'', song_path = None\<rparr>]"

text \<open>
  The invariant of the query loop: the identity strings of the collected tracks are
  pairwise different and all in \<^verbatim>\<open>seen_ids\<close>, and every collected track has a
  non-empty name and a non-empty first artist name.
\<close>

definition fetch_inv :: "feed_track list \<Rightarrow> string set \<Rightarrow> bool" where
  "fetch_inv all_tracks seen_ids =
     (distinct (map track_id_of all_tracks) \<and> track_id_of ` set all_tracks \<subseteq> seen_ids
      \<and> (\<forall>t\<in>set all_tracks. dict_get (trk_name t) [] \<noteq> [] \<and> first_artist_name t [] \<noteq> []))"

text \<open>A feed that answers every query with the same tracks.\<close>

definition feed_env :: "feed_track list \<Rightarrow> nat env" where
  "feed_env tracks = quiet_env\<lparr>requests_get := (\<lambda>w url. (Inr tracks, w + 1))\<rparr>"

text \<open>
  The loop invariant of the scoring loop after the results \<open>rs\<close>: no result was
  eligible so far, or the best match is the first of the eligible results with the
  highest score.
\<close>

definition best_inv :: "string \<Rightarrow> string \<Rightarrow> yt_result list \<Rightarrow> yt_result option \<times> nat \<Rightarrow> bool" where
  "best_inv na nt rs acc =
     (case acc of (bm, bs) \<Rightarrow>
        (case bm of
           None \<Rightarrow> bs = 0 \<and> (\<forall>r\<in>set rs. \<not> eligible na nt r)
         | Some r \<Rightarrow> (\<exists>i<length rs. rs ! i = r \<and> eligible na nt r \<and> bs = match_score na nt r
              \<and> (\<forall>j<length rs. eligible na nt (rs ! j) \<longrightarrow> match_score na nt (rs ! j) \<le> bs)
              \<and> (\<forall>j<i. eligible na nt (rs ! j) \<longrightarrow> match_score na nt (rs ! j) < bs))))"

text \<open>A syncer with one enabled playlist of one track, and a feed track.\<close>

definition example_config :: "string \<Rightarrow> bool \<Rightarrow> path option \<Rightarrow> playlist_config" where
  "example_config n enabled dir =
     \<lparr>cfg_enabled = enabled, cfg_tracks = 1,
      cfg_url = ''https://www.last.fm/player/station/user/u/recommended'',
      cfg_name = n, cfg_dir = dir, cfg_schedule = ''0 4 * * 1'', cfg_playlist_type = []\<rparr>"

definition example_syncer :: syncer where
  "example_syncer =
     \<lparr>syn_playlists =
        [(''recommended'', example_config ''Discover Recommended'' True (Some (music_dir @ [''recommended'']))),
         (''mix'', example_config ''Recommended Mix'' False (Some (music_dir @ [''mix'']))),
         (''library'', example_config ''Library Mix'' False None)],
      syn_listenbrainz_playlists = []\<rparr>"

definition example_feed_track :: feed_track where
  "example_feed_track = \<lparr>trk_name = Some ''Waterloo'', trk_artists = [Some ''ABBA''], trk_album = None\<rparr>"

text \<open>
  The feed has one track and the server has the playlist; the music directory does
  not exist and cannot be created.
\<close>

definition readonly_env :: "nat env" where
  "readonly_env =
     quiet_env\<lparr>requests_get := (\<lambda>w url. (Inr [example_feed_track], w)),
               getPlaylists := (\<lambda>w. (Inr [\<lparr>pl_id = Some ''p1'', pl_name = Some ''Discover Recommended''\<rparr>], w)),
               path_mkdir := (\<lambda>w p. (Inl OSError, w)),
               new_syncer := (\<lambda>w. (Inr example_syncer, w))\<rparr>"

section \<open>Theorems\<close>

subsection \<open>Scoring\<close>

text \<open>
  C6. A result whose artist string is exactly \<open>A\<close> and whose title is exactly \<open>B\<close>,
  scored against the target \<open>(A, B)\<close> with both strings non-empty, is eligible and has
  the maximum score 4: 2 for the equal normalized artists and 2 for the equal
  normalized titles.
\<close>

theorem exact_match_scores_four:
  assumes "A \<noteq> []" and "B \<noteq> []"
    and "result_artist_of r = A" and "res_title r = Some B"
  shows "eligible (normalize_for_matching A) (normalize_for_matching B) r
       \<and> match_score (normalize_for_matching A) (normalize_for_matching B) r = 4"
  using assms by (simp add: eligible_def match_score_def dict_get_def)

theorem exact_match_scores_four_witness:
  "match_score (normalize_for_matching ''ABBA'') (normalize_for_matching ''Waterloo'')
     \<lparr>res_videoId = Some ''v1'', res_title = Some ''Waterloo'',
      res_artists = ArtistDicts [Some ''ABBA''], res_album = None, res_thumbnails = []\<rparr> = 4"
  using exact_match_scores_four [of "''ABBA''" "''Waterloo''"
      "\<lparr>res_videoId = Some ''v1'', res_title = Some ''Waterloo'',
        res_artists = ArtistDicts [Some ''ABBA''], res_album = None, res_thumbnails = []\<rparr>"]
  by (simp add: result_artist_of_def dict_get_def)

subsection \<open>Delays\<close>

text \<open>
  C8. For a non-empty list of acquired tracks the settling delay is
  \<open>clamp(len(acquiredTracks), 5, 30)\<close>, and for a non-empty not-found list the delay
  before the retry is \<open>clamp(len(notFound) * 2, 0, 30)\<close>, in integer arithmetic.
\<close>

theorem delays_are_clamped:
  "(downloaded_tracks \<noteq> [] \<longrightarrow>
      wait_time downloaded_tracks = clamp (int (length downloaded_tracks)) 5 30)
   \<and> (not_found_tracks \<noteq> [] \<longrightarrow>
      retry_wait not_found_tracks = clamp (int (length not_found_tracks) * 2) 0 30)"
  by (auto simp: wait_time_def retry_wait_def clamp_def)

theorem delays_are_clamped_witness:
  "[''a'', ''b''] \<noteq> [] \<and> wait_time [''a'', ''b''] = 5
   \<and> replicate 16 ''c'' \<noteq> [] \<and> retry_wait (replicate 16 ''c'') = 30"
  using delays_are_clamped [of "[''a'', ''b'']" "replicate 16 ''c''"]
  by (simp add: clamp_def)

subsection \<open>Selection of the best match\<close>

lemma eligible_score_ge2:
  "eligible na nt r \<Longrightarrow> 2 \<le> match_score na nt r"
  by (auto simp: eligible_def match_score_def Let_def)

lemma best_inv_step:
  assumes "best_inv na nt rs acc"
  shows "best_inv na nt (rs @ [x]) (score_step na nt acc x)"
proof (cases acc)
  case (Pair bm bs)
  show ?thesis
  proof (cases bm)
    case None
    with Pair assms have z: "bs = 0" and ne: "\<forall>r\<in>set rs. \<not> eligible na nt r"
      by (auto simp: best_inv_def)
    show ?thesis
    proof (cases "eligible na nt x")
      case True
      then have "0 < match_score na nt x" using eligible_score_ge2 [of na nt x] by simp
      with True Pair None z ne show ?thesis
        apply (simp add: best_inv_def score_step_def Let_def)
        apply (rule exI [of _ "length rs"])
        apply (auto simp: nth_append)
        done
    next
      case False
      with Pair None z ne show ?thesis
        by (simp add: best_inv_def score_step_def)
    qed
  next
    case (Some r)
    with Pair assms obtain i where i: "i < length rs" "rs ! i = r" "eligible na nt r"
        "bs = match_score na nt r"
        "\<forall>j<length rs. eligible na nt (rs ! j) \<longrightarrow> match_score na nt (rs ! j) \<le> bs"
        "\<forall>j<i. eligible na nt (rs ! j) \<longrightarrow> match_score na nt (rs ! j) < bs"
      by (auto simp: best_inv_def)
    show ?thesis
    proof (cases "eligible na nt x \<and> bs < match_score na nt x")
      case True
      have "\<forall>j<length rs. eligible na nt (rs ! j) \<longrightarrow> match_score na nt (rs ! j) < match_score na nt x"
        using i(5) True by fastforce
      with True Pair Some show ?thesis
        apply (simp add: best_inv_def score_step_def Let_def)
        apply (rule exI [of _ "length rs"])
        apply (auto simp: nth_append less_Suc_eq)
        done
    next
      case False
      then have st: "score_step na nt acc x = acc"
        using Pair by (auto simp: score_step_def Let_def)
      have "\<forall>j<length (rs @ [x]). eligible na nt ((rs @ [x]) ! j) \<longrightarrow> match_score na nt ((rs @ [x]) ! j) \<le> bs"
        using i(5) False by (auto simp: nth_append less_Suc_eq)
      moreover have "\<forall>j<i. eligible na nt ((rs @ [x]) ! j) \<longrightarrow> match_score na nt ((rs @ [x]) ! j) < bs"
        using i(6) i(1) by (auto simp: nth_append)
      moreover have "(rs @ [x]) ! i = r" using i(1,2) by (simp add: nth_append)
      ultimately show ?thesis
        unfolding st using Pair Some i(1,3,4)
        apply (simp add: best_inv_def)
        apply (rule exI [of _ i])
        apply simp
        done
    qed
  qed
qed

lemma best_inv_foldl:
  "best_inv na nt rs (foldl (score_step na nt) (None, 0) rs)"
proof (induction rs rule: rev_induct)
  case Nil
  show ?case by (simp add: best_inv_def)
next
  case (snoc x xs)
  then show ?case by (simp add: best_inv_step)
qed

text \<open>
  C5. For every target and every list of search results, the scorer returns no match
  exactly when no result is eligible with a score of at least 2 (eligible: each
  normalized field of the result contains, or is contained in, the target's), and
  it returns \<open>r\<close> exactly when \<open>r\<close> is an eligible result at a position \<open>i\<close> whose
  score no eligible result exceeds and which every eligible result before \<open>i\<close> is
  strictly below: the highest score wins, ties go to the result seen first.
\<close>

theorem best_match_is_first_highest:
  "(select_best_match artist title results = None \<longleftrightarrow>
      \<not> (\<exists>r\<in>set results. eligible (normalize_for_matching artist) (normalize_for_matching title) r
            \<and> 2 \<le> match_score (normalize_for_matching artist) (normalize_for_matching title) r))
   \<and> (select_best_match artist title results = Some r \<longleftrightarrow>
      (\<exists>i<length results. results ! i = r
         \<and> eligible (normalize_for_matching artist) (normalize_for_matching title) r
         \<and> (\<forall>j<length results.
               eligible (normalize_for_matching artist) (normalize_for_matching title) (results ! j) \<longrightarrow>
               match_score (normalize_for_matching artist) (normalize_for_matching title) (results ! j)
                 \<le> match_score (normalize_for_matching artist) (normalize_for_matching title) r)
         \<and> (\<forall>j<i.
               eligible (normalize_for_matching artist) (normalize_for_matching title) (results ! j) \<longrightarrow>
               match_score (normalize_for_matching artist) (normalize_for_matching title) (results ! j)
                 < match_score (normalize_for_matching artist) (normalize_for_matching title) r)))"
proof -
  define na where "na = normalize_for_matching artist"
  define nt where "nt = normalize_for_matching title"
  obtain bm bs where f: "foldl (score_step na nt) (None, 0) results = (bm, bs)"
    by (cases "foldl (score_step na nt) (None, 0) results")
  have inv: "best_inv na nt results (bm, bs)"
    using best_inv_foldl [of na nt results] f by simp
  have sel: "select_best_match artist title results = (if bm = None \<or> bs < 2 then None else bm)"
    using f by (simp add: select_best_match_def na_def nt_def)
  have A: "select_best_match artist title results = None \<longleftrightarrow>
      \<not> (\<exists>r\<in>set results. eligible na nt r \<and> 2 \<le> match_score na nt r)"
  proof (cases bm)
    case None
    with inv sel show ?thesis by (auto simp: best_inv_def)
  next
    case (Some b)
    with inv obtain i where "i < length results" "results ! i = b" "eligible na nt b" "bs = match_score na nt b"
      by (auto simp: best_inv_def)
    moreover from this have "2 \<le> bs" using eligible_score_ge2 by simp
    moreover from calculation have "b \<in> set results" by auto
    ultimately show ?thesis using sel Some by auto
  qed
  have B: "select_best_match artist title results = Some r \<longleftrightarrow>
      (\<exists>i<length results. results ! i = r \<and> eligible na nt r
         \<and> (\<forall>j<length results. eligible na nt (results ! j) \<longrightarrow> match_score na nt (results ! j) \<le> match_score na nt r)
         \<and> (\<forall>j<i. eligible na nt (results ! j) \<longrightarrow> match_score na nt (results ! j) < match_score na nt r))"
    (is "?L \<longleftrightarrow> ?R")
  proof
    assume ?L
    with sel have bm: "bm = Some r" by (auto split: if_splits)
    with inv show ?R by (auto simp: best_inv_def)
  next
    assume ?R
    then obtain i where i: "i < length results" "results ! i = r" "eligible na nt r"
      "\<forall>j<length results. eligible na nt (results ! j) \<longrightarrow> match_score na nt (results ! j) \<le> match_score na nt r"
      "\<forall>j<i. eligible na nt (results ! j) \<longrightarrow> match_score na nt (results ! j) < match_score na nt r"
      by blast
    have "r \<in> set results" using i(1,2) by auto
    with inv i(3) obtain b where b: "bm = Some b" by (cases bm) (auto simp: best_inv_def)
    with inv obtain k where k: "k < length results" "results ! k = b" "eligible na nt b"
      "bs = match_score na nt b"
      "\<forall>j<length results. eligible na nt (results ! j) \<longrightarrow> match_score na nt (results ! j) \<le> bs"
      "\<forall>j<k. eligible na nt (results ! j) \<longrightarrow> match_score na nt (results ! j) < bs"
      by (auto simp: best_inv_def)
    have eq: "match_score na nt r = bs"
      using i(1,2,3,4) k(1,2,3,4,5) by (metis le_antisym)
    have "\<not> i < k" using k(6) i(2,3) eq by auto
    moreover have "\<not> k < i" using i(5) k(2,3,4) eq by auto
    ultimately have "i = k" by simp
    then have "b = r" using i(2) k(2) by simp
    moreover have "2 \<le> bs" using k(3,4) eligible_score_ge2 by simp
    ultimately show ?L using sel b by simp
  qed
  from A B show ?thesis unfolding na_def nt_def by blast
qed

theorem best_match_is_first_highest_witness:
  "select_best_match ''ABBA'' ''Waterloo''
     [\<lparr>res_videoId = Some ''v0'', res_title = Some ''Waterloo (Live)'',
       res_artists = ArtistDicts [Some ''ABBA''], res_album = None, res_thumbnails = []\<rparr>,
      \<lparr>res_videoId = Some ''v1'', res_title = Some ''Waterloo'',
       res_artists = ArtistDicts [Some ''Abba''], res_album = None, res_thumbnails = []\<rparr>,
      \<lparr>res_videoId = Some ''v2'', res_title = Some ''waterloo'',
       res_artists = ArtistDicts [Some ''ABBA''], res_album = None, res_thumbnails = []\<rparr>,
      \<lparr>res_videoId = Some ''v3'', res_title = Some ''Dancing Queen'',
       res_artists = ArtistDicts [Some ''ABBA''], res_album = None, res_thumbnails = []\<rparr>]
   = Some \<lparr>res_videoId = Some ''v1'', res_title = Some ''Waterloo'',
       res_artists = ArtistDicts [Some ''Abba''], res_album = None, res_thumbnails = []\<rparr>"
proof -
  let ?r0 = "\<lparr>res_videoId = Some ''v0'', res_title = Some ''Waterloo (Live)'',
       res_artists = ArtistDicts [Some ''ABBA''], res_album = None, res_thumbnails = []\<rparr>"
  let ?r1 = "\<lparr>res_videoId = Some ''v1'', res_title = Some ''Waterloo'',
       res_artists = ArtistDicts [Some ''Abba''], res_album = None, res_thumbnails = []\<rparr>"
  let ?r2 = "\<lparr>res_videoId = Some ''v2'', res_title = Some ''waterloo'',
       res_artists = ArtistDicts [Some ''ABBA''], res_album = None, res_thumbnails = []\<rparr>"
  let ?r3 = "\<lparr>res_videoId = Some ''v3'', res_title = Some ''Dancing Queen'',
       res_artists = ArtistDicts [Some ''ABBA''], res_album = None, res_thumbnails = []\<rparr>"
  let ?na = "normalize_for_matching ''ABBA''"
  let ?nt = "normalize_for_matching ''Waterloo''"
  have e1: "eligible ?na ?nt ?r1" by code_simp
  have e3: "\<not> eligible ?na ?nt ?r3" by code_simp
  have s0: "match_score ?na ?nt ?r0 = 3" by code_simp
  have s1: "match_score ?na ?nt ?r1 = 4" by code_simp
  have s2: "match_score ?na ?nt ?r2 = 4" by code_simp
  have "\<exists>i<length [?r0, ?r1, ?r2, ?r3]. [?r0, ?r1, ?r2, ?r3] ! i = ?r1 \<and> eligible ?na ?nt ?r1
         \<and> (\<forall>j<length [?r0, ?r1, ?r2, ?r3]. eligible ?na ?nt ([?r0, ?r1, ?r2, ?r3] ! j) \<longrightarrow>
               match_score ?na ?nt ([?r0, ?r1, ?r2, ?r3] ! j) \<le> match_score ?na ?nt ?r1)
         \<and> (\<forall>j<i. eligible ?na ?nt ([?r0, ?r1, ?r2, ?r3] ! j) \<longrightarrow>
               match_score ?na ?nt ([?r0, ?r1, ?r2, ?r3] ! j) < match_score ?na ?nt ?r1)"
    apply (rule exI [of _ 1])
    using e1 e3 s0 s1 s2 by (simp add: nth_Cons' less_Suc_eq numeral_eq_Suc)
  then show ?thesis
    using best_match_is_first_highest [of "''ABBA''" "''Waterloo''" "[?r0, ?r1, ?r2, ?r3]" ?r1]
    by blast
qed

subsection \<open>Track number\<close>

lemma album_loop_no_match:
  "\<forall>t\<in>set ts. \<not> track_matches vid title t \<Longrightarrow>
   album_track_loop vid (normalize_for_matching title) idx ts tn = tn"
  by (induction ts arbitrary: idx) (auto simp: track_matches_def Let_def)

lemma album_loop_first_match:
  "i < length ts \<Longrightarrow> track_matches vid title (ts ! i) \<Longrightarrow>
   \<forall>j<i. \<not> track_matches vid title (ts ! j) \<Longrightarrow>
   album_track_loop vid (normalize_for_matching title) idx ts tn = idx + i"
proof (induction ts arbitrary: idx i)
  case Nil
  then show ?case by simp
next
  case (Cons t ts)
  show ?case
  proof (cases i)
    case 0
    with Cons.prems show ?thesis by (auto simp: track_matches_def Let_def)
  next
    case (Suc k)
    with Cons.prems have nm: "\<not> track_matches vid title t" by auto
    have "album_track_loop vid (normalize_for_matching title) (idx + 1) ts tn = idx + 1 + k"
      using Cons.prems Suc by (intro Cons.IH) auto
    with nm Suc show ?thesis by (auto simp: track_matches_def Let_def)
  qed
qed

text \<open>
  C3 (amended). The track number is the position, counted from 1, of the first track
  of the album that matches by external id or by normalized title, whichever kind
  of match that track has; it is 1 when no track matches.
\<close>

theorem track_number_is_first_match:
  "((\<forall>t\<in>set album_tracks. \<not> track_matches video_id title t) \<longrightarrow>
      album_track_number video_id title album_tracks = 1)
   \<and> (\<forall>i<length album_tracks.
        track_matches video_id title (album_tracks ! i)
        \<and> (\<forall>j<i. \<not> track_matches video_id title (album_tracks ! j)) \<longrightarrow>
        album_track_number video_id title album_tracks = i + 1)"
  using album_loop_no_match [of album_tracks video_id title 1 1]
    album_loop_first_match [of _ album_tracks video_id title 1 1]
  by (auto simp: album_track_number_def)

theorem track_number_is_first_match_witness:
  "album_track_number ''v'' ''Hello''
     [\<lparr>at_videoId = Some ''a'', at_title = Some ''Intro''\<rparr>,
      \<lparr>at_videoId = Some ''b'', at_title = Some ''hello!''\<rparr>,
      \<lparr>at_videoId = Some ''v'', at_title = Some ''Hello (Live)''\<rparr>] = 2
   \<and> album_track_number ''v'' ''Hello'' [\<lparr>at_videoId = Some ''a'', at_title = Some ''Intro''\<rparr>] = 1"
proof -
  let ?ts = "[\<lparr>at_videoId = Some ''a'', at_title = Some ''Intro''\<rparr>,
      \<lparr>at_videoId = Some ''b'', at_title = Some ''hello!''\<rparr>,
      \<lparr>at_videoId = Some ''v'', at_title = Some ''Hello (Live)''\<rparr>]"
  have m1: "track_matches ''v'' ''Hello'' (?ts ! 1)" by code_simp
  have m0: "\<not> track_matches ''v'' ''Hello'' (?ts ! 0)" by code_simp
  have "album_track_number ''v'' ''Hello'' ?ts = 1 + 1"
    using track_number_is_first_match [of ?ts "''v''" "''Hello''"] m1 m0
    by (auto simp del: nth_Cons_Suc nth_Cons_0 List.nth.simps)
  moreover have "album_track_number ''v'' ''Hello'' [\<lparr>at_videoId = Some ''a'', at_title = Some ''Intro''\<rparr>] = 1"
    using track_number_is_first_match [of "[\<lparr>at_videoId = Some ''a'', at_title = Some ''Intro''\<rparr>]" "''v''" "''Hello''"] m0
    by simp
  ultimately show ?thesis by simp
qed

text \<open>
  C3 as stated fails: with an earlier track of the same normalized title and a later
  track with the match's external id, the earlier position is chosen.
\<close>

theorem title_match_before_id_match_counterexample:
  "normalize_for_matching (dict_get (at_title ([\<lparr>at_videoId = Some ''x'', at_title = Some ''Hello''\<rparr>,
        \<lparr>at_videoId = Some ''v'', at_title = Some ''Hello (Live)''\<rparr>] ! 0)) [])
     = normalize_for_matching ''Hello''
   \<and> dict_get (at_videoId ([\<lparr>at_videoId = Some ''x'', at_title = Some ''Hello''\<rparr>,
        \<lparr>at_videoId = Some ''v'', at_title = Some ''Hello (Live)''\<rparr>] ! 1)) [] = ''v''
   \<and> album_track_number ''v'' ''Hello''
       [\<lparr>at_videoId = Some ''x'', at_title = Some ''Hello''\<rparr>,
        \<lparr>at_videoId = Some ''v'', at_title = Some ''Hello (Live)''\<rparr>] = 1
   \<and> album_track_number ''v'' ''Hello''
       [\<lparr>at_videoId = Some ''x'', at_title = Some ''Hello''\<rparr>,
        \<lparr>at_videoId = Some ''v'', at_title = Some ''Hello (Live)''\<rparr>] \<noteq> 2"
  by code_simp

subsection \<open>Fetching candidates\<close>

lemma add_tracks_inv:
  "fetch_inv all_tracks seen_ids \<Longrightarrow>
   add_tracks fetch_count tracks (all_tracks, seen_ids, n) = (all_tracks', seen_ids', n') \<Longrightarrow>
   fetch_inv all_tracks' seen_ids'"
proof (induction tracks arbitrary: all_tracks seen_ids n)
  case Nil
  then show ?case by simp
next
  case (Cons track rest)
  show ?case
  proof (cases "track_id_of track \<notin> seen_ids \<and> dict_get (trk_name track) [] \<noteq> []
                 \<and> first_artist_name track [] \<noteq> []")
    case True
    have inv': "fetch_inv (all_tracks @ [track]) (insert (track_id_of track) seen_ids)"
      using Cons.prems(1) True by (auto simp: fetch_inv_def)
    show ?thesis
    proof (cases "int (length (all_tracks @ [track])) \<ge> fetch_count")
      case stop: True
      with True Cons.prems(2) inv' show ?thesis
        by (auto simp: track_id_of_def Let_def)
    next
      case False
      with True Cons.prems(2) have
        "add_tracks fetch_count rest (all_tracks @ [track], insert (track_id_of track) seen_ids, n + 1)
           = (all_tracks', seen_ids', n')"
        by (auto simp: track_id_of_def Let_def)
      with inv' show ?thesis by (rule Cons.IH)
    qed
  next
    case False
    with Cons.prems(2) have "add_tracks fetch_count rest (all_tracks, seen_ids, n) = (all_tracks', seen_ids', n')"
      by (auto simp: track_id_of_def Let_def)
    with Cons.prems(1) show ?thesis by (rule Cons.IH)
  qed
qed

lemma fetch_loop_inv:
  "fetch_inv all_tracks seen_ids \<Longrightarrow>
   \<exists>seen. fetch_inv (fst (fetch_loop E url fetch_count (all_tracks, seen_ids, attempts) w)) seen"
proof (induction E url fetch_count "(all_tracks, seen_ids, attempts)" w
        arbitrary: all_tracks seen_ids attempts rule: fetch_loop.induct)
  case (1 E url fetch_count all_tracks seen_ids attempts w)
  show ?case
  proof (cases "int (length all_tracks) < fetch_count \<and> attempts < 20")
    case False
    then show ?thesis using "1.prems" by (subst fetch_loop.simps) auto
  next
    case True
    obtain r w1 where r: "requests_get E w url = (r, w1)" by (cases "requests_get E w url")
    show ?thesis
    proof (cases r)
      case (Inl e)
      with True r show ?thesis using "1.prems" by (subst fetch_loop.simps) auto
    next
      case (Inr tracks)
      show ?thesis
      proof (cases "tracks = []")
        case True
        with \<open>int (length all_tracks) < fetch_count \<and> attempts < 20\<close> r Inr show ?thesis
          using "1.prems" by (subst fetch_loop.simps) auto
      next
        case False
        obtain a' s' n' where a: "add_tracks fetch_count tracks (all_tracks, seen_ids, 0) = (a', s', n')"
          by (cases "add_tracks fetch_count tracks (all_tracks, seen_ids, 0)")
        have inv': "fetch_inv a' s'" using add_tracks_inv [OF "1.prems" a] .
        show ?thesis
        proof (cases "n' = 0")
          case True
          with \<open>int (length all_tracks) < fetch_count \<and> attempts < 20\<close> r Inr False a inv'
          show ?thesis by (subst fetch_loop.simps) auto
        next
          case nz: False
          show ?thesis
          proof (cases "int (length a') < fetch_count")
            case lt: True
            have "\<exists>seen. fetch_inv (fst (fetch_loop E url fetch_count (a', s', attempts + 1) (time_sleep E w1 1))) seen"
              by (rule "1.hyps"(1) [OF True r [symmetric] Inr False a [symmetric] refl nz lt inv'])
            with \<open>int (length all_tracks) < fetch_count \<and> attempts < 20\<close> r Inr False a nz lt
            show ?thesis by (subst fetch_loop.simps) auto
          next
            case ge: False
            have "\<exists>seen. fetch_inv (fst (fetch_loop E url fetch_count (a', s', attempts + 1) w1)) seen"
              by (rule "1.hyps"(2) [OF True r [symmetric] Inr False a [symmetric] refl nz ge inv'])
            with \<open>int (length all_tracks) < fetch_count \<and> attempts < 20\<close> r Inr False a nz ge
            show ?thesis by (subst fetch_loop.simps) auto
          qed
        qed
      qed
    qed
  qed
qed

lemma distinct_map_outer: "distinct (map (\<lambda>x. g (f x)) xs) \<Longrightarrow> distinct (map f xs)"
  by (induction xs) auto

text \<open>
  C2 (amended). For every sequence of feed answers, no two candidates of the
  returned list have the same identity string \<^verbatim>\<open>artist:title\<close>, compared exactly as
  the feed spells it, and so no two have the same pair (artist, title). Letter case
  is significant.
\<close>

theorem fetched_ids_distinct:
  "distinct (map track_id_of (fst (fetch_lastfm_tracks E w url num_tracks)))
   \<and> distinct (map (\<lambda>t. (first_artist_name t [], dict_get (trk_name t) []))
         (fst (fetch_lastfm_tracks E w url num_tracks)))"
proof -
  have "fetch_inv [] {}" by (simp add: fetch_inv_def)
  from fetch_loop_inv [OF this, of E url "num_tracks * 3" 0 w]
  have d: "distinct (map track_id_of (fst (fetch_lastfm_tracks E w url num_tracks)))"
    by (auto simp: fetch_lastfm_tracks_def fetch_inv_def)
  have "distinct (map (\<lambda>t. (\<lambda>p. fst p @ '':'' @ snd p) (first_artist_name t [], dict_get (trk_name t) []))
          (fst (fetch_lastfm_tracks E w url num_tracks)))"
    using d by (simp add: track_id_of_def [abs_def])
  then have "distinct (map (\<lambda>t. (first_artist_name t [], dict_get (trk_name t) []))
             (fst (fetch_lastfm_tracks E w url num_tracks)))"
    by (rule distinct_map_outer)
  with d show ?thesis by simp
qed

text \<open>
  C2 as stated fails: two tracks that differ only in letter case are both kept, and
  their case-folded identity keys are equal.
\<close>

theorem casefolded_duplicates_counterexample:
  "\<not> distinct (map casefold_key (fst (fetch_lastfm_tracks
       (feed_env [\<lparr>trk_name = Some ''Waterloo'', trk_artists = [Some ''ABBA''], trk_album = None\<rparr>,
                  \<lparr>trk_name = Some ''waterloo'', trk_artists = [Some ''Abba''], trk_album = None\<rparr>])
       0 ''u'' 1)))"
proof -
  have "fst (fetch_lastfm_tracks
       (feed_env [\<lparr>trk_name = Some ''Waterloo'', trk_artists = [Some ''ABBA''], trk_album = None\<rparr>,
                  \<lparr>trk_name = Some ''waterloo'', trk_artists = [Some ''Abba''], trk_album = None\<rparr>])
       0 ''u'' 1) = [\<lparr>trk_name = Some ''Waterloo'', trk_artists = [Some ''ABBA''], trk_album = None\<rparr>,
                  \<lparr>trk_name = Some ''waterloo'', trk_artists = [Some ''Abba''], trk_album = None\<rparr>]"
    apply (simp add: fetch_lastfm_tracks_def)
    apply (subst fetch_loop.simps)
    apply (simp add: feed_env_def quiet_env_def dict_get_def first_artist_name_def Let_def)
    apply (subst fetch_loop.simps)
    apply (simp add: feed_env_def quiet_env_def dict_get_def first_artist_name_def Let_def)
    done
  moreover have
    "casefold_key \<lparr>trk_name = Some ''Waterloo'', trk_artists = [Some ''ABBA''], trk_album = None\<rparr>
     = casefold_key \<lparr>trk_name = Some ''waterloo'', trk_artists = [Some ''Abba''], trk_album = None\<rparr>"
    by code_simp
  ultimately show ?thesis by simp
qed

text \<open>
  C10. Every candidate returned by the feed fetcher has a non-empty title and a
  non-empty first artist name: entries whose name or first artist name is missing
  or empty are left out.
\<close>

theorem fetched_tracks_nonempty_fields:
  "\<forall>t\<in>set (fst (fetch_lastfm_tracks E w url num_tracks)).
     dict_get (trk_name t) [] \<noteq> [] \<and> first_artist_name t [] \<noteq> []"
proof -
  have "fetch_inv [] {}" by (simp add: fetch_inv_def)
  from fetch_loop_inv [OF this, of E url "num_tracks * 3" 0 w]
  show ?thesis by (auto simp: fetch_lastfm_tracks_def fetch_inv_def)
qed

theorem fetched_tracks_nonempty_fields_witness:
  "fst (fetch_lastfm_tracks
       (feed_env [\<lparr>trk_name = None, trk_artists = [Some ''ABBA''], trk_album = None\<rparr>,
                  \<lparr>trk_name = Some ''Waterloo'', trk_artists = [], trk_album = None\<rparr>,
                  \<lparr>trk_name = Some ''Waterloo'', trk_artists = [Some ''ABBA''], trk_album = None\<rparr>])
       0 ''u'' 1) = [\<lparr>trk_name = Some ''Waterloo'', trk_artists = [Some ''ABBA''], trk_album = None\<rparr>]
   \<and> dict_get (trk_name \<lparr>trk_name = Some ''Waterloo'', trk_artists = [Some ''ABBA''], trk_album = None\<rparr>) [] \<noteq> []
   \<and> first_artist_name \<lparr>trk_name = Some ''Waterloo'', trk_artists = [Some ''ABBA''], trk_album = None\<rparr> [] \<noteq> []"
proof -
  have r: "fst (fetch_lastfm_tracks
       (feed_env [\<lparr>trk_name = None, trk_artists = [Some ''ABBA''], trk_album = None\<rparr>,
                  \<lparr>trk_name = Some ''Waterloo'', trk_artists = [], trk_album = None\<rparr>,
                  \<lparr>trk_name = Some ''Waterloo'', trk_artists = [Some ''ABBA''], trk_album = None\<rparr>])
       0 ''u'' 1) = [\<lparr>trk_name = Some ''Waterloo'', trk_artists = [Some ''ABBA''], trk_album = None\<rparr>]"
    apply (simp add: fetch_lastfm_tracks_def)
    apply (subst fetch_loop.simps)
    apply (simp add: feed_env_def quiet_env_def dict_get_def first_artist_name_def Let_def)
    apply (subst fetch_loop.simps)
    apply (simp add: feed_env_def quiet_env_def dict_get_def first_artist_name_def Let_def)
    done
  show ?thesis
    using fetched_tracks_nonempty_fields [of
       "feed_env [\<lparr>trk_name = None, trk_artists = [Some ''ABBA''], trk_album = None\<rparr>,
                  \<lparr>trk_name = Some ''Waterloo'', trk_artists = [], trk_album = None\<rparr>,
                  \<lparr>trk_name = Some ''Waterloo'', trk_artists = [Some ''ABBA''], trk_album = None\<rparr>]"
       0 "''u''" 1]
    unfolding r by simp
qed

subsection \<open>Resolution of the acquired tracks\<close>

lemma first_pass_spec:
  "\<forall>t\<in>set ts. ti_artist t \<noteq> [] \<and> ti_title t \<noteq> [] \<Longrightarrow>
   lookup_each E w ts = (rs, w') \<Longrightarrow>
   first_pass E ts (ids, nf, w) = (ids @ found_ids rs, nf @ missed ts rs, w')"
proof (induction ts arbitrary: ids nf w rs w')
  case Nil
  then show ?case by (simp add: found_ids_def missed_def)
next
  case (Cons t ts)
  obtain r w1 where l: "library_lookup E w t = (r, w1)" by (cases "library_lookup E w t")
  obtain rs' w2 where e: "lookup_each E w1 ts = (rs', w2)" by (cases "lookup_each E w1 ts")
  from Cons.prems(2) l e have rs: "rs = r # rs'" and w': "w' = w2" by auto
  have ne: "ti_artist t \<noteq> []" "ti_title t \<noteq> []" and rest: "\<forall>t\<in>set ts. ti_artist t \<noteq> [] \<and> ti_title t \<noteq> []"
    using Cons.prems(1) by auto
  note IH = Cons.IH [OF rest e]
  obtain a w1' where s: "search3 E w (ti_artist t @ '' '' @ ti_title t) 10 = (a, w1')"
    by (cases "search3 E w (ti_artist t @ '' '' @ ti_title t) 10")
  show ?case
    using l s ne IH
    by (auto simp: library_lookup_def rs w' found_ids_def missed_def truthy_def dict_get_def
             split: sum.splits list.splits if_splits option.splits)
qed

lemma retry_pass_spec:
  "\<forall>t\<in>set ts. ti_artist t \<noteq> [] \<and> ti_title t \<noteq> [] \<Longrightarrow>
   lookup_each E w ts = (rs, w') \<Longrightarrow>
   retry_pass E ts (ids, w) = (ids @ found_ids rs, w')"
proof (induction ts arbitrary: ids w rs w')
  case Nil
  then show ?case by (simp add: found_ids_def)
next
  case (Cons t ts)
  obtain r w1 where l: "library_lookup E w t = (r, w1)" by (cases "library_lookup E w t")
  obtain rs' w2 where e: "lookup_each E w1 ts = (rs', w2)" by (cases "lookup_each E w1 ts")
  from Cons.prems(2) l e have rs: "rs = r # rs'" and w': "w' = w2" by auto
  have ne: "ti_artist t \<noteq> []" "ti_title t \<noteq> []" and rest: "\<forall>t\<in>set ts. ti_artist t \<noteq> [] \<and> ti_title t \<noteq> []"
    using Cons.prems(1) by auto
  note IH = Cons.IH [OF rest e]
  obtain a w1' where s: "search3 E w (ti_artist t @ '' '' @ ti_title t) 10 = (a, w1')"
    by (cases "search3 E w (ti_artist t @ '' '' @ ti_title t) 10")
  show ?case
    using l s ne IH
    by (auto simp: library_lookup_def rs w' found_ids_def truthy_def dict_get_def
             split: sum.splits list.splits if_splits option.splits)
qed

lemma first_pass_skips:
  "first_pass E ts st = first_pass E (queried ts) st"
proof (induction ts arbitrary: st)
  case Nil
  then show ?case by (simp add: queried_def)
next
  case (Cons t ts)
  obtain ids nf w where st: "st = (ids, nf, w)" by (cases st)
  show ?case
  proof (cases "ti_artist t = [] \<or> ti_title t = []")
    case True
    then show ?thesis using Cons.IH [of st] by (auto simp: st queried_def)
  next
    case False
    then have q: "queried (t # ts) = t # queried ts" by (simp add: queried_def)
    show ?thesis unfolding q st using False Cons.IH
      by (auto simp: Let_def split: sum.splits list.splits prod.splits)
  qed
qed

lemma missed_subset: "set (missed ts rs) \<subseteq> set ts"
  by (auto simp: missed_def dest: set_zip_leftD)

lemma lookup_each_length: "lookup_each E w ts = (rs, w') \<Longrightarrow> length rs = length ts"
  by (induction ts arbitrary: w rs) (auto split: prod.splits)

text \<open>
  C7. The resolution queries each acquired track that has an artist and a title
  once (\<open>rs1\<close> are the answers); the tracks not found are, after the delay, each
  queried exactly once more (\<open>rs2\<close> has one answer per such track), and nothing is
  queried after that: the world returned is the one after these queries. The
  identifiers returned are those of the first pass in input order followed by those
  of the retry in retry order, so a track found only on the retry is among them and
  a track never found is not; the function returns a list in all cases.
\<close>

theorem resolution_retries_once:
  assumes "lookup_each E w (queried tracks) = (rs1, w1)"
    and "not_found = missed (queried tracks) rs1"
    and "lookup_each E (time_sleep E w1 (retry_wait not_found)) not_found = (rs2, w2)"
  shows "resolve_downloaded E w tracks
           = (found_ids rs1 @ found_ids rs2, if not_found = [] then w1 else w2)
       \<and> length rs1 = length (queried tracks) \<and> length rs2 = length not_found"
proof -
  have q: "\<forall>t\<in>set (queried tracks). ti_artist t \<noteq> [] \<and> ti_title t \<noteq> []"
    by (simp add: queried_def)
  have fp: "first_pass E tracks ([], [], w) = (found_ids rs1, not_found, w1)"
    using first_pass_spec [OF q assms(1), of "[]" "[]"] first_pass_skips [of E tracks "([], [], w)"]
      assms(2) by simp
  have nfq: "\<forall>t\<in>set not_found. ti_artist t \<noteq> [] \<and> ti_title t \<noteq> []"
    using q missed_subset [of "queried tracks" rs1] assms(2) by blast
  have rp: "retry_pass E not_found (found_ids rs1, time_sleep E w1 (retry_wait not_found))
              = (found_ids rs1 @ found_ids rs2, w2)"
    using retry_pass_spec [OF nfq assms(3)] .
  have l1: "length rs1 = length (queried tracks)" using lookup_each_length [OF assms(1)] .
  have l2: "length rs2 = length not_found" using lookup_each_length [OF assms(3)] .
  have "resolve_downloaded E w tracks
           = (found_ids rs1 @ found_ids rs2, if not_found = [] then w1 else w2)"
  proof (cases "not_found = []")
    case True
    with l2 have "rs2 = []" by simp
    with True fp show ?thesis by (simp add: resolve_downloaded_def found_ids_def)
  next
    case False
    with fp rp show ?thesis by (simp add: resolve_downloaded_def)
  qed
  with l1 l2 show ?thesis by simp
qed

theorem resolution_retries_once_witness:
  "resolve_downloaded (library_env late_library) 0
     [example_track ''Blur'' ''Song 2'', example_track ''Abba'' ''Waterloo'',
      example_track ''Cher'' ''Believe'', example_track [] ''Untitled'']
   = ([''s1'', ''s2''], 5)"
proof -
  let ?E = "library_env late_library"
  let ?ts = "[example_track ''Blur'' ''Song 2'', example_track ''Abba'' ''Waterloo'',
      example_track ''Cher'' ''Believe'', example_track [] ''Untitled'']"
  have q: "queried ?ts = [example_track ''Blur'' ''Song 2'', example_track ''Abba'' ''Waterloo'',
      example_track ''Cher'' ''Believe'']"
    by (simp add: queried_def example_track_def)
  have e1: "lookup_each ?E 0 (queried ?ts) = ([None, Some ''s1'', None], 3)"
    unfolding q
    by (simp add: library_lookup_def library_env_def quiet_env_def late_library_def
          example_track_def truthy_def)
  have nf: "[example_track ''Blur'' ''Song 2'', example_track ''Cher'' ''Believe'']
              = missed (queried ?ts) [None, Some ''s1'', None]"
    unfolding q by (simp add: missed_def)
  have e2: "lookup_each ?E
              (time_sleep ?E 3 (retry_wait [example_track ''Blur'' ''Song 2'', example_track ''Cher'' ''Believe'']))
              [example_track ''Blur'' ''Song 2'', example_track ''Cher'' ''Believe'']
            = ([Some ''s2'', None], 5)"
    by (simp add: library_lookup_def library_env_def quiet_env_def late_library_def
          example_track_def truthy_def)
  show ?thesis
    using resolution_retries_once [OF e1 nf e2] by (simp add: found_ids_def)
qed

subsection \<open>The reconciliation loop\<close>

lemma acquire_loop_unfold:
  "acquire_loop E d T tracks st w =
     (if ls_success_count st < T \<and> ls_track_index st < length tracks then
        (case candidate_result E d (tracks ! ls_track_index st) w of
           (r, w1) \<Rightarrow>
             acquire_loop E d T tracks
               (record_result r (st\<lparr>ls_track_index := ls_track_index st + 1\<rparr>))
               (after_attempt E r w1))
      else (st, w))"
  by (subst acquire_loop.simps)
     (simp add: Let_def candidate_result_def record_result_def after_attempt_def
           split: prod.splits acquire_result.splits)

lemma record_result_index [simp]: "ls_track_index (record_result r st) = ls_track_index st"
  by (simp add: record_result_def split: acquire_result.splits)

lemma record_result_count:
  "ls_success_count (record_result r st) = ls_success_count st + (if succeeded r then 1 else 0)"
  by (simp add: record_result_def succeeded_def split: acquire_result.splits)

lemma record_result_lengths:
  "length (ls_song_ids (record_result r st)) + length (ls_downloaded_tracks (record_result r st))
     = length (ls_song_ids st) + length (ls_downloaded_tracks st) + (if succeeded r then 1 else 0)"
  by (simp add: record_result_def succeeded_def split: acquire_result.splits)

lemma loop_measure_induct:
  assumes "\<And>st w. (\<And>st' w'. length tracks - ls_track_index st' < length tracks - ls_track_index st \<Longrightarrow> P st' w') \<Longrightarrow> P st w"
  shows "P (st :: loop_state) (w :: 'w)"
proof (induction "length tracks - ls_track_index st" arbitrary: st w rule: less_induct)
  case less
  show ?case by (rule assms) (rule less, assumption)
qed

lemma acquire_loop_final:
  "acquire_loop E d T tracks st w = (st', w') \<Longrightarrow>
   (T \<le> ls_success_count st' \<or> length tracks \<le> ls_track_index st')
   \<and> ls_track_index st \<le> ls_track_index st'
   \<and> ls_success_count st \<le> ls_success_count st'
   \<and> (ls_success_count st \<le> T \<longrightarrow> ls_success_count st' \<le> T)
   \<and> (ls_track_index st \<le> length tracks \<longrightarrow> ls_track_index st' \<le> length tracks)"
proof (induction st w rule: loop_measure_induct [where tracks = tracks])
  case (1 st w)
  show ?case
  proof (cases "ls_success_count st < T \<and> ls_track_index st < length tracks")
    case False
    with "1.prems" show ?thesis by (subst (asm) acquire_loop_unfold) auto
  next
    case True
    obtain r w1 where c: "candidate_result E d (tracks ! ls_track_index st) w = (r, w1)"
      by (cases "candidate_result E d (tracks ! ls_track_index st) w")
    let ?st1 = "record_result r (st\<lparr>ls_track_index := ls_track_index st + 1\<rparr>)"
    have rec: "acquire_loop E d T tracks ?st1 (after_attempt E r w1) = (st', w')"
      using "1.prems" True c by (subst (asm) acquire_loop_unfold) simp
    have "length tracks - ls_track_index ?st1 < length tracks - ls_track_index st"
      using True by auto
    from "1.IH" [OF this rec] True show ?thesis
      by (auto simp: record_result_count split: if_splits)
  qed
qed

lemma acquire_loop_available:
  assumes av: "always_available E d"
  shows "acquire_loop E d T tracks st w = (st', w') \<Longrightarrow>
   ls_success_count st \<le> T \<Longrightarrow>
   int (ls_track_index st) + (T - ls_success_count st) \<le> int (length tracks) \<Longrightarrow>
   ls_success_count st' = T
   \<and> int (ls_track_index st') = int (ls_track_index st) + (T - ls_success_count st)
   \<and> int (length (ls_song_ids st') + length (ls_downloaded_tracks st'))
       = int (length (ls_song_ids st) + length (ls_downloaded_tracks st)) + (T - ls_success_count st)"
proof (induction st w rule: loop_measure_induct [where tracks = tracks])
  case (1 st w)
  show ?case
  proof (cases "ls_success_count st < T \<and> ls_track_index st < length tracks")
    case False
    with "1.prems" show ?thesis by (subst (asm) acquire_loop_unfold) auto
  next
    case True
    obtain r w1 where c: "candidate_result E d (tracks ! ls_track_index st) w = (r, w1)"
      by (cases "candidate_result E d (tracks ! ls_track_index st) w")
    have s: "succeeded r" using av c
      by (auto simp: always_available_def candidate_result_def dest: spec [of _ w]) (metis fst_conv)
    let ?st1 = "record_result r (st\<lparr>ls_track_index := ls_track_index st + 1\<rparr>)"
    have rec: "acquire_loop E d T tracks ?st1 (after_attempt E r w1) = (st', w')"
      using "1.prems"(1) True c by (subst (asm) acquire_loop_unfold) simp
    have m: "length tracks - ls_track_index ?st1 < length tracks - ls_track_index st"
      using True by auto
    have c1: "ls_success_count ?st1 = ls_success_count st + 1"
      using s by (simp add: record_result_count)
    have l1: "length (ls_song_ids ?st1) + length (ls_downloaded_tracks ?st1)
                = length (ls_song_ids st) + length (ls_downloaded_tracks st) + 1"
      using s record_result_lengths [of r "st\<lparr>ls_track_index := ls_track_index st + 1\<rparr>"] by simp
    have p2: "ls_success_count ?st1 \<le> T" using c1 True by simp
    have p3: "int (ls_track_index ?st1) + (T - ls_success_count ?st1) \<le> int (length tracks)"
      using c1 "1.prems"(3) by simp
    from "1.IH" [OF m rec p2 p3] c1 l1 show ?thesis by simp
  qed
qed

lemma acquire_loop_take:
  "acquire_loop E d T tracks st w = (st', w') \<Longrightarrow> ls_track_index st' \<le> n \<Longrightarrow>
   acquire_loop E d T (take n tracks) st w = (st', w')"
proof (induction st w rule: loop_measure_induct [where tracks = tracks])
  case (1 st w)
  show ?case
  proof (cases "ls_success_count st < T \<and> ls_track_index st < length tracks")
    case False
    with "1.prems" have "st' = st" "w' = w" by (subst (asm) acquire_loop_unfold, auto)+
    with False show ?thesis by (subst acquire_loop_unfold) auto
  next
    case True
    obtain r w1 where c: "candidate_result E d (tracks ! ls_track_index st) w = (r, w1)"
      by (cases "candidate_result E d (tracks ! ls_track_index st) w")
    let ?st1 = "record_result r (st\<lparr>ls_track_index := ls_track_index st + 1\<rparr>)"
    have rec: "acquire_loop E d T tracks ?st1 (after_attempt E r w1) = (st', w')"
      using "1.prems"(1) True c by (subst (asm) acquire_loop_unfold) simp
    have m: "length tracks - ls_track_index ?st1 < length tracks - ls_track_index st"
      using True by auto
    have "ls_track_index ?st1 \<le> ls_track_index st'"
      using acquire_loop_final [OF rec] by simp
    then have lt: "ls_track_index st < n" using "1.prems"(2) by simp
    have IH: "acquire_loop E d T (take n tracks) ?st1 (after_attempt E r w1) = (st', w')"
      using "1.IH" [OF m rec "1.prems"(2)] .
    show ?thesis
      using True lt c IH by (subst acquire_loop_unfold) simp
  qed
qed

lemma loop_step_index [simp]: "ls_track_index (loop_step st r) = ls_track_index st + 1"
  by (simp add: loop_step_def)

lemma acquire_loop_trace:
  "acquire_loop E d T tracks st w = (st', w') \<Longrightarrow> ls_track_index st \<le> length tracks \<Longrightarrow>
   \<exists>rs. attempt_each E d w
           (take (ls_track_index st' - ls_track_index st) (drop (ls_track_index st) tracks)) = (rs, w')
      \<and> st' = foldl loop_step st rs
      \<and> (\<forall>m<length rs. ls_success_count (foldl loop_step st (take m rs)) < T)"
proof (induction st w rule: loop_measure_induct [where tracks = tracks])
  case (1 st w)
  show ?case
  proof (cases "ls_success_count st < T \<and> ls_track_index st < length tracks")
    case False
    with "1.prems" have "st' = st" "w' = w" by (subst (asm) acquire_loop_unfold, auto)+
    then show ?thesis by simp
  next
    case True
    let ?i = "ls_track_index st"
    obtain r w1 where c: "candidate_result E d (tracks ! ?i) w = (r, w1)"
      by (cases "candidate_result E d (tracks ! ?i) w")
    let ?st1 = "loop_step st r"
    have rec: "acquire_loop E d T tracks ?st1 (after_attempt E r w1) = (st', w')"
      using "1.prems"(1) True c by (subst (asm) acquire_loop_unfold) (simp add: loop_step_def)
    have m: "length tracks - ls_track_index ?st1 < length tracks - ls_track_index st"
      using True by auto
    have le1: "ls_track_index ?st1 \<le> length tracks" using True by simp
    from "1.IH" [OF m rec le1] obtain rs where
      rs: "attempt_each E d (after_attempt E r w1)
             (take (ls_track_index st' - ls_track_index ?st1) (drop (ls_track_index ?st1) tracks)) = (rs, w')"
      and st': "st' = foldl loop_step ?st1 rs"
      and before: "\<forall>m<length rs. ls_success_count (foldl loop_step ?st1 (take m rs)) < T"
      by blast
    have ge: "?i + 1 \<le> ls_track_index st'" using acquire_loop_final [OF rec] by simp
    have tk: "take (ls_track_index st' - ?i) (drop ?i tracks)
                = tracks ! ?i # take (ls_track_index st' - (?i + 1)) (drop (?i + 1) tracks)"
    proof -
      have "drop ?i tracks = tracks ! ?i # drop (Suc ?i) tracks"
        using True by (simp add: Cons_nth_drop_Suc)
      moreover obtain k where "ls_track_index st' - ?i = Suc k" "ls_track_index st' - (?i + 1) = k"
        using ge by (metis Suc_diff_Suc Suc_eq_plus1 Suc_le_lessD diff_diff_left)
      ultimately show ?thesis by simp
    qed
    have a: "attempt_each E d w (take (ls_track_index st' - ?i) (drop ?i tracks)) = (r # rs, w')"
      unfolding tk using c rs by simp
    have b: "st' = foldl loop_step st (r # rs)" using st' by simp
    have "\<forall>m<length (r # rs). ls_success_count (foldl loop_step st (take m (r # rs))) < T"
    proof (intro allI impI)
      fix m assume "m < length (r # rs)"
      show "ls_success_count (foldl loop_step st (take m (r # rs))) < T"
      proof (cases m)
        case 0
        with True show ?thesis by simp
      next
        case (Suc k)
        with \<open>m < length (r # rs)\<close> before show ?thesis by simp
      qed
    qed
    with a b show ?thesis by blast
  qed
qed

lemma foldl_loop_step:
  "foldl loop_step st rs =
     \<lparr>ls_success_count = ls_success_count st + successes rs,
      ls_track_index = ls_track_index st + length rs,
      ls_song_ids = ls_song_ids st @ present_ids rs,
      ls_downloaded_tracks = ls_downloaded_tracks st @ acquired_tracks rs,
      ls_skipped_count = ls_skipped_count st + int (length (present_ids rs))\<rparr>"
proof (induction rs arbitrary: st)
  case Nil
  show ?case by (simp add: successes_def present_ids_def acquired_tracks_def)
next
  case (Cons r rs)
  show ?case
    unfolding foldl_Cons Cons.IH
    by (cases r) (simp_all add: loop_step_def record_result_def successes_def present_ids_def
          acquired_tracks_def succeeded_def)
qed

lemma foldl_loop_step_initial: "foldl loop_step initial_loop_state rs = recorded rs"
  by (simp add: foldl_loop_step initial_loop_state_def recorded_def)

lemma attempt_each_available:
  "always_available E d \<Longrightarrow> attempt_each E d w ts = (rs, w') \<Longrightarrow> \<forall>r\<in>set rs. succeeded r"
proof (induction ts arbitrary: w rs w')
  case Nil
  then show ?case by simp
next
  case (Cons t ts)
  obtain r w1 where c: "candidate_result E d t w = (r, w1)" by (cases "candidate_result E d t w")
  obtain rs' w2 where a: "attempt_each E d (after_attempt E r w1) ts = (rs', w2)"
    by (cases "attempt_each E d (after_attempt E r w1) ts")
  have "succeeded r" using Cons.prems(1) c
    unfolding always_available_def candidate_result_def by (metis fst_conv)
  moreover have "\<forall>r\<in>set rs'. succeeded r" using Cons.IH [OF Cons.prems(1) a] .
  ultimately show ?case using Cons.prems(2) c a by auto
qed

text \<open>
  C1. The loop always terminates (it is a total function), and whatever state \<open>st\<close>
  and world \<open>w'\<close> it ends in: it has made the acquisitions for exactly the
  candidates before the final index, in order (\<open>rs\<close> are their results and \<open>w'\<close> is
  the world they leave), it has recorded exactly these results, and before each of
  them the success count was below the target. It stops at once in a state whose
  success count has reached the target or whose index is at the end of the
  candidates, and the state it ends in is such a state, with the success count not
  above a non-negative target. When every acquisition succeeds and there are
  \<open>3 * T\<close> candidates, the acquisitions made are those for the first \<open>T\<close>
  candidates, all successful and all recorded, the index ends at \<open>T\<close>, and the
  loop does the same, in the same world, on the first \<open>T\<close> candidates alone: the
  other \<open>2 * T\<close> are never attempted.
\<close>

theorem reconciliation_loop:
  assumes run: "acquire_loop E d T tracks initial_loop_state w = (st, w')"
  shows "(\<exists>rs. attempt_each E d w (take (ls_track_index st) tracks) = (rs, w')
            \<and> st = recorded rs \<and> (\<forall>m<length rs. successes (take m rs) < T))
       \<and> ls_track_index st \<le> length tracks
       \<and> (T \<le> ls_success_count st \<or> ls_track_index st = length tracks)
       \<and> (0 \<le> T \<longrightarrow> ls_success_count st \<le> T)
       \<and> (\<forall>s v. (T \<le> ls_success_count s \<or> length tracks \<le> ls_track_index s) \<longrightarrow>
              acquire_loop E d T tracks s v = (s, v))
       \<and> (always_available E d \<and> int (length tracks) = 3 * T \<longrightarrow>
            (\<exists>rs. attempt_each E d w (take (nat T) tracks) = (rs, w')
                 \<and> st = recorded rs \<and> (\<forall>r\<in>set rs. succeeded r) \<and> int (length rs) = T)
            \<and> ls_success_count st = T \<and> int (ls_track_index st) = T
            \<and> int (length (ls_song_ids st) + length (ls_downloaded_tracks st)) = T
            \<and> acquire_loop E d T (take (nat T) tracks) initial_loop_state w = (st, w'))"
proof -
  have i0: "ls_track_index initial_loop_state \<le> length tracks" by (simp add: initial_loop_state_def)
  from acquire_loop_trace [OF run i0] obtain rs where
    rs: "attempt_each E d w (take (ls_track_index st) tracks) = (rs, w')"
    and st: "st = foldl loop_step initial_loop_state rs"
    and before: "\<forall>m<length rs. ls_success_count (foldl loop_step initial_loop_state (take m rs)) < T"
    by (auto simp: initial_loop_state_def)
  have st_rec: "st = recorded rs" using st by (simp add: foldl_loop_step_initial)
  have bef: "\<forall>m<length rs. successes (take m rs) < T"
    using before by (simp add: foldl_loop_step_initial recorded_def)
  have p1: "\<exists>rs. attempt_each E d w (take (ls_track_index st) tracks) = (rs, w')
            \<and> st = recorded rs \<and> (\<forall>m<length rs. successes (take m rs) < T)"
    using rs st_rec bef by blast
  have f: "(T \<le> ls_success_count st \<or> ls_track_index st = length tracks)
      \<and> (0 \<le> T \<longrightarrow> ls_success_count st \<le> T) \<and> ls_track_index st \<le> length tracks"
    using acquire_loop_final [OF run] by (auto simp: initial_loop_state_def)
  have stop: "\<forall>s v. (T \<le> ls_success_count s \<or> length tracks \<le> ls_track_index s) \<longrightarrow>
        acquire_loop E d T tracks s v = (s, v)"
    by (subst acquire_loop_unfold) auto
  have a: "(\<exists>rs. attempt_each E d w (take (nat T) tracks) = (rs, w')
                 \<and> st = recorded rs \<and> (\<forall>r\<in>set rs. succeeded r) \<and> int (length rs) = T)
            \<and> ls_success_count st = T \<and> int (ls_track_index st) = T
            \<and> int (length (ls_song_ids st) + length (ls_downloaded_tracks st)) = T
            \<and> acquire_loop E d T (take (nat T) tracks) initial_loop_state w = (st, w')"
    if av: "always_available E d" and len: "int (length tracks) = 3 * T"
  proof -
    have T0: "0 \<le> T" using len by (smt (verit) of_nat_0_le_iff)
    have "ls_success_count st = T
       \<and> int (ls_track_index st) = int (ls_track_index initial_loop_state) + (T - ls_success_count initial_loop_state)
       \<and> int (length (ls_song_ids st) + length (ls_downloaded_tracks st))
           = int (length (ls_song_ids initial_loop_state) + length (ls_downloaded_tracks initial_loop_state))
             + (T - ls_success_count initial_loop_state)"
      using T0 len by (intro acquire_loop_available [OF av run]) (simp_all add: initial_loop_state_def)
    then have 1: "ls_success_count st = T" "int (ls_track_index st) = T"
       "int (length (ls_song_ids st) + length (ls_downloaded_tracks st)) = T"
      by (simp_all add: initial_loop_state_def)
    have idx: "ls_track_index st = nat T" using 1(2) by simp
    have rsT: "attempt_each E d w (take (nat T) tracks) = (rs, w')" using rs idx by simp
    have all: "\<forall>r\<in>set rs. succeeded r" using attempt_each_available [OF av rsT] .
    have lr: "int (length rs) = T" using st_rec 1(2) by (simp add: recorded_def)
    have "ls_track_index st \<le> nat T" using idx by simp
    from acquire_loop_take [OF run this] 1 rsT st_rec all lr show ?thesis by blast
  qed
  from p1 f stop a show ?thesis by blast
qed

theorem reconciliation_loop_witness:
  "acquire_loop (library_env full_library) [''music'', ''navidrofm'', ''mix''] 1
        [\<lparr>trk_name = Some ''a'', trk_artists = [Some ''x''], trk_album = None\<rparr>,
         \<lparr>trk_name = Some ''b'', trk_artists = [Some ''y''], trk_album = None\<rparr>,
         \<lparr>trk_name = Some ''c'', trk_artists = [Some ''z''], trk_album = None\<rparr>]
        initial_loop_state 0 = (recorded [AlreadyPresent ''s1''], 1)
   \<and> always_available (library_env full_library) [''music'', ''navidrofm'', ''mix'']
   \<and> int (length [\<lparr>trk_name = Some ''a'', trk_artists = [Some ''x''], trk_album = None\<rparr>,
                  \<lparr>trk_name = Some ''b'', trk_artists = [Some ''y''], trk_album = None\<rparr>,
                  \<lparr>trk_name = Some ''c'', trk_artists = [Some ''z''], trk_album = None\<rparr>]) = 3 * 1
   \<and> attempt_each (library_env full_library) [''music'', ''navidrofm'', ''mix''] 0
        [\<lparr>trk_name = Some ''a'', trk_artists = [Some ''x''], trk_album = None\<rparr>]
        = ([AlreadyPresent ''s1''], 1)
   \<and> int (ls_track_index (recorded [AlreadyPresent ''s1''])) = 1
   \<and> acquire_loop (library_env full_library) [''music'', ''navidrofm'', ''mix''] 1
        (take (nat 1)
          [\<lparr>trk_name = Some ''a'', trk_artists = [Some ''x''], trk_album = None\<rparr>,
           \<lparr>trk_name = Some ''b'', trk_artists = [Some ''y''], trk_album = None\<rparr>,
           \<lparr>trk_name = Some ''c'', trk_artists = [Some ''z''], trk_album = None\<rparr>])
        initial_loop_state 0 = (recorded [AlreadyPresent ''s1''], 1)"
proof -
  let ?E = "library_env full_library"
  let ?d = "[''music'', ''navidrofm'', ''mix'']"
  let ?t = "\<lparr>trk_name = Some ''a'', trk_artists = [Some ''x''], trk_album = None\<rparr>"
  let ?ts = "[?t,
         \<lparr>trk_name = Some ''b'', trk_artists = [Some ''y''], trk_album = None\<rparr>,
         \<lparr>trk_name = Some ''c'', trk_artists = [Some ''z''], trk_album = None\<rparr>]"
  have av: "always_available ?E ?d"
    by (simp add: always_available_def acquire_def search_navidrome_track_def library_env_def
          quiet_env_def full_library_def truthy_def succeeded_def)
  have len: "int (length ?ts) = 3 * 1" by simp
  have c: "candidate_result ?E ?d ?t 0 = (AlreadyPresent ''s1'', 1)"
    by (simp add: candidate_result_def acquire_def search_navidrome_track_def library_env_def
          quiet_env_def full_library_def truthy_def dict_get_def)
  have ae: "attempt_each ?E ?d 0 [?t] = ([AlreadyPresent ''s1''], 1)"
    by (simp add: c after_attempt_def)
  have run: "acquire_loop ?E ?d 1 ?ts initial_loop_state 0 = (recorded [AlreadyPresent ''s1''], 1)"
    apply (subst acquire_loop_unfold)
    apply (simp add: initial_loop_state_def c record_result_def after_attempt_def)
    apply (subst acquire_loop_unfold)
    apply (simp add: recorded_def successes_def succeeded_def present_ids_def acquired_tracks_def)
    done
  from reconciliation_loop [OF run] av len
  have "int (ls_track_index (recorded [AlreadyPresent ''s1''])) = 1
      \<and> acquire_loop ?E ?d 1 (take (nat 1) ?ts) initial_loop_state 0
           = (recorded [AlreadyPresent ''s1''], 1)"
    by blast
  with run av len ae show ?thesis by blast
qed

subsection \<open>Publishing\<close>

text \<open>
  C9. On the media server, publishing to an existing playlist makes one request,
  which carries the song ids, or the playlist id alone when there are none, and
  after it the playlist holds exactly the given sequence, the empty one included;
  publishing the same sequence again leaves the playlists as they are.
\<close>

theorem publish_replaces_contents:
  assumes "srv_playlists s playlist_id \<noteq> None"
  shows "srv_playlists (update_playlist server_env s playlist_id song_ids) playlist_id = Some song_ids
       \<and> srv_requests (update_playlist server_env s playlist_id song_ids)
           = srv_requests s @ [ById playlist_id (if song_ids = [] then None else Some song_ids)]
       \<and> srv_playlists (update_playlist server_env s playlist_id []) playlist_id = Some []
       \<and> srv_playlists (update_playlist server_env
                          (update_playlist server_env s playlist_id song_ids) playlist_id song_ids)
           = srv_playlists (update_playlist server_env s playlist_id song_ids)"
  using assms
  by (auto simp: update_playlist_def server_env_def quiet_env_def server_createPlaylist_def)

theorem publish_replaces_contents_witness:
  "srv_playlists (update_playlist server_env
       \<lparr>srv_playlists = [''p1'' \<mapsto> [''old'']], srv_requests = []\<rparr> ''p1'' [''a'', ''b'']) ''p1''
     = Some [''a'', ''b'']
   \<and> srv_requests (update_playlist server_env
       \<lparr>srv_playlists = [''p1'' \<mapsto> [''old'']], srv_requests = []\<rparr> ''p1'' [])
     = [ById ''p1'' None]"
proof -
  have h: "srv_playlists \<lparr>srv_playlists = [''p1'' \<mapsto> [''old'']], srv_requests = []\<rparr> ''p1'' \<noteq> None"
    by simp
  show ?thesis
    using publish_replaces_contents [OF h, of "[''a'', ''b'']"]
          publish_replaces_contents [OF h, of "[]"]
    by simp
qed

subsection \<open>Errors during a sync\<close>

lemma one_track_feed:
  "requests_get E = (\<lambda>w url. (Inr [example_feed_track], w)) \<Longrightarrow> time_sleep E = (\<lambda>w n. w) \<Longrightarrow>
   fetch_lastfm_tracks E w url 1 = ([example_feed_track], w)"
  apply (simp add: fetch_lastfm_tracks_def)
  apply (subst fetch_loop.simps)
  apply (simp add: example_feed_track_def dict_get_def first_artist_name_def Let_def)
  apply (subst fetch_loop.simps)
  apply (simp add: example_feed_track_def dict_get_def first_artist_name_def Let_def)
  done

text \<open>
  C4. The code at the failing input: the setup has succeeded, fetching has produced
  a candidate and the playlist exists on the server; the playlist directory does
  not exist and \<^verbatim>\<open>mkdir\<close> raises \<^verbatim>\<open>OSError\<close>. The exception is not caught in
  \<^verbatim>\<open>sync_playlist\<close>: it leaves the sync, and the process ends with status 1.
\<close>

theorem mkdir_error_aborts_sync:
  "fst (fetch_tracks_for_playlist readonly_env example_syncer 0 ''recommended''
          (example_config ''Discover Recommended'' True (Some (music_dir @ [''recommended'']))))
     = [example_feed_track]
   \<and> sync_playlist readonly_env example_syncer 0 ''recommended'' = Some (Inl OSError, 0)
   \<and> main readonly_env 0 [''app.py'', ''recommended''] = Some (1, 0)"
proof -
  let ?c = "example_config ''Discover Recommended'' True (Some (music_dir @ [''recommended'']))"
  have cfg: "get_playlist_config example_syncer ''recommended'' = Some ?c"
    by (simp add: get_playlist_config_def example_syncer_def)
  have f: "fetch_tracks_for_playlist readonly_env example_syncer 0 ''recommended'' ?c
             = ([example_feed_track], 0)"
    using one_track_feed [of readonly_env 0 "cfg_url ?c"]
    by (simp add: fetch_tracks_for_playlist_def example_syncer_def example_config_def
          readonly_env_def quiet_env_def)
  have g: "get_navidrome_playlist_id readonly_env 0 (cfg_name ?c) = (Some ''p1'', 0)"
    by (simp add: get_navidrome_playlist_id_def readonly_env_def quiet_env_def example_config_def)
  have p: "prepare_directory readonly_env example_syncer 0 (music_dir @ [''recommended''])
             = (Inl OSError, 0)"
    by (simp add: prepare_directory_def readonly_env_def quiet_env_def)
  have s: "sync_playlist readonly_env example_syncer 0 ''recommended'' = Some (Inl OSError, 0)"
    using cfg f g p
    by (simp add: sync_playlist_def truthy_def example_config_def example_feed_track_def)
  have m: "main readonly_env 0 [''app.py'', ''recommended''] = Some (1, 0)"
    using s by (simp add: main_def readonly_env_def quiet_env_def)
  from f s m show ?thesis by simp
qed

end
